theory Spec2Isabelle
  imports Complex_Main
begin

section \<open>Numeric values\<close>

text \<open>
  Prices and returns are Python/numpy floats. Finite floats are idealised as reals.
  Where the source divides, the divisor can be zero, and numpy's float64 division
  does not raise there: it yields \<open>inf\<close>, \<open>-inf\<close> or \<open>nan\<close> by the sign of the
  numerator. Those outcomes are kept as values of their own.
\<close>

datatype npfloat = Fin real | PosInf | NegInf | NaN

definition np_div :: "real \<Rightarrow> real \<Rightarrow> npfloat" where
  "np_div x y =
     (if y \<noteq> 0 then Fin (x / y)
      else if 0 < x then PosInf
      else if x < 0 then NegInf
      else NaN)"

text \<open>Comparisons of a float with a finite bound, as IEEE orders them
  (every comparison with \<open>nan\<close> is false).\<close>

fun np_gt :: "npfloat \<Rightarrow> real \<Rightarrow> bool" where
  "np_gt (Fin x) c = (c < x)"
| "np_gt PosInf c = True"
| "np_gt NegInf c = False"
| "np_gt NaN c = False"

fun np_lt :: "npfloat \<Rightarrow> real \<Rightarrow> bool" where
  "np_lt (Fin x) c = (x < c)"
| "np_lt PosInf c = False"
| "np_lt NegInf c = True"
| "np_lt NaN c = False"

fun np_abs :: "npfloat \<Rightarrow> npfloat" where
  "np_abs (Fin x) = Fin \<bar>x\<bar>"
| "np_abs PosInf = PosInf"
| "np_abs NegInf = PosInf"
| "np_abs NaN = NaN"

section \<open>Return calculation (KOLSentiment.py)\<close>

text \<open>
  \<open>KOLSentimentDB.calculate_returns\<close>. The argument \<open>hist\<close> is what
  \<open>yf_helper.get_stock_data\<close> returned for the 20-day window starting at the
  prediction date: \<open>None\<close>, or the \<open>Close\<close> column in date order. The body
  sits in a \<open>try\<close> whose handler turns any exception into three absent returns; the
  indexed reads are guarded by the length tests, so the modelled body raises nothing.
\<close>

type_synonym returns = "npfloat option \<times> npfloat option \<times> npfloat option"

definition calculate_returns :: "real list option \<Rightarrow> real \<Rightarrow> returns" where
  "calculate_returns hist initial_price =
     (case hist of
        None \<Rightarrow> (None, None, None)
      | Some h \<Rightarrow>
          if h = [] then (None, None, None)
          else
            let r1 = (if length h > 1
                      then Some (np_div (h ! 1 - initial_price) initial_price) else None);
                r3 = (if length h > 3
                      then Some (np_div (h ! 3 - initial_price) initial_price) else None);
                r10 = (if length h > 10
                       then Some (np_div (h ! 10 - initial_price) initial_price) else None)
            in (r1, r3, r10))"

section \<open>Direction accuracy (kol_accuracy.py, kol_performance_metrics.py)\<close>

text \<open>\<open>str.lower\<close> on the ASCII letters: a capital letter (codes 65 to 90) gains
  32, which is its bit 5; every other byte is left as it is.\<close>

fun lower_char :: "char \<Rightarrow> char" where
  "lower_char (Char b0 b1 b2 b3 b4 b5 b6 b7) =
     (let n = (of_char (Char b0 b1 b2 b3 b4 b5 b6 b7) :: nat)
      in if 65 \<le> n \<and> n \<le> 90
         then Char b0 b1 b2 b3 b4 True b6 b7
         else Char b0 b1 b2 b3 b4 b5 b6 b7)"

definition lower :: "string \<Rightarrow> string" where
  "lower s = map lower_char s"

text \<open>\<open>kol_accuracy.is_direction_correct\<close>: the \<open>if\<close>/\<open>elif\<close> chain, returning 1 or 0.\<close>

definition is_direction_correct :: "string \<Rightarrow> npfloat \<Rightarrow> int" where
  "is_direction_correct sentiment ret =
     (if lower sentiment = ''positive'' \<and> np_gt ret 0 then 1
      else if lower sentiment = ''negative'' \<and> np_lt ret 0 then 1
      else if lower sentiment = ''neutral'' \<and> np_lt (np_abs ret) (1 / 100) then 1
      else 0)"

text \<open>\<open>kol_performance_metrics.is_direction_correct\<close>: a second copy of the same chain.\<close>

definition is_direction_correct_pm :: "string \<Rightarrow> npfloat \<Rightarrow> int" where
  "is_direction_correct_pm sentiment ret =
     (if lower sentiment = ''positive'' \<and> np_gt ret 0 then 1
      else if lower sentiment = ''negative'' \<and> np_lt ret 0 then 1
      else if lower sentiment = ''neutral'' \<and> np_lt (np_abs ret) (1 / 100) then 1
      else 0)"

text \<open>The \<open>KOLSentiment\<close> row. \<open>row_id\<close> is \<open>None\<close> until the row is flushed;
  \<open>prediction_time\<close> is a timestamp.\<close>

record kol_sentiment =
  row_id :: "nat option"
  prediction_time :: int
  kol_name :: string
  ticker :: string
  sector :: string
  sentiment :: string
  confidence :: real
  initial_price :: "real option"
  return_1d :: "npfloat option"
  return_3d :: "npfloat option"
  return_10d :: "npfloat option"

text \<open>The per-key statistics dictionary of \<open>get_kol_performance_stats\<close> (whose
  counter is keyed \<open>total_predictions\<close>) and of \<open>analyze_sentiment_accuracy\<close>
  (keyed \<open>total\<close>); the other keys are the same.\<close>

record accuracy_stats =
  total :: nat
  correct_1d :: nat
  correct_3d :: nat
  correct_10d :: nat
  accuracy_1d :: real
  accuracy_3d :: real
  accuracy_10d :: real

definition fresh_stats :: accuracy_stats where
  "fresh_stats = \<lparr>total = 0, correct_1d = 0, correct_3d = 0, correct_10d = 0,
     accuracy_1d = 0, accuracy_3d = 0, accuracy_10d = 0\<rparr>"

text \<open>The body both loops run for a record that passed the \<open>return_1d is None\<close>
  gate: the counter goes up by one, then each present horizon return is scored.\<close>

definition score_horizon :: "string \<Rightarrow> npfloat option \<Rightarrow> nat \<Rightarrow> nat" where
  "score_horizon sent ret n =
     (case ret of
        None \<Rightarrow> n
      | Some x \<Rightarrow> if is_direction_correct sent x \<noteq> 0 then n + 1 else n)"

definition count_record :: "kol_sentiment \<Rightarrow> accuracy_stats \<Rightarrow> accuracy_stats" where
  "count_record r st =
     st\<lparr>total := total st + 1,
        correct_1d := score_horizon (sentiment r) (return_1d r) (correct_1d st),
        correct_3d := score_horizon (sentiment r) (return_3d r) (correct_3d st),
        correct_10d := score_horizon (sentiment r) (return_10d r) (correct_10d st)\<rparr>"

text \<open>The closing loop of both functions: the three rates, each over the counter.\<close>

definition set_accuracies :: "accuracy_stats \<Rightarrow> accuracy_stats" where
  "set_accuracies st =
     (if total st > 0
      then st\<lparr>accuracy_1d := real (correct_1d st) / real (total st),
              accuracy_3d := real (correct_3d st) / real (total st),
              accuracy_10d := real (correct_10d st) / real (total st)\<rparr>
      else st)"

definition kol_stats_step ::
  "kol_sentiment \<Rightarrow> (string \<rightharpoonup> accuracy_stats) \<Rightarrow> (string \<rightharpoonup> accuracy_stats)" where
  "kol_stats_step r kol_stats =
     (if return_1d r = None then kol_stats
      else
        let st = (case kol_stats (kol_name r) of None \<Rightarrow> fresh_stats | Some st \<Rightarrow> st)
        in kol_stats(kol_name r \<mapsto> count_record r st))"

definition get_kol_performance_stats ::
  "kol_sentiment list \<Rightarrow> (string \<rightharpoonup> accuracy_stats)" where
  "get_kol_performance_stats records =
     (\<lambda>k. map_option set_accuracies (fold kol_stats_step records Map.empty k))"

definition sentiment_stats_init :: "string \<rightharpoonup> accuracy_stats" where
  "sentiment_stats_init =
     [''positive'' \<mapsto> fresh_stats, ''negative'' \<mapsto> fresh_stats, ''neutral'' \<mapsto> fresh_stats]"

definition sentiment_stats_step ::
  "kol_sentiment \<Rightarrow> (string \<rightharpoonup> accuracy_stats) \<Rightarrow> (string \<rightharpoonup> accuracy_stats)" where
  "sentiment_stats_step r sentiment_stats =
     (if return_1d r = None then sentiment_stats
      else
        let sent = lower (sentiment r)
        in case sentiment_stats sent of
             None \<Rightarrow> sentiment_stats
           | Some st \<Rightarrow> sentiment_stats(sent \<mapsto> count_record r st))"

definition analyze_sentiment_accuracy ::
  "kol_sentiment list \<Rightarrow> (string \<rightharpoonup> accuracy_stats)" where
  "analyze_sentiment_accuracy records =
     (\<lambda>k. map_option set_accuracies (fold sentiment_stats_step records sentiment_stats_init k))"

text \<open>Counting over a list of records, for stating what the two functions compute:
  the records counted for a key, and among given records those whose return at a
  horizon is present, and those whose call at that horizon is correct.\<close>

definition counted_for_kol :: "string \<Rightarrow> kol_sentiment list \<Rightarrow> kol_sentiment list" where
  "counted_for_kol k records = filter (\<lambda>r. return_1d r \<noteq> None \<and> kol_name r = k) records"

definition counted_for_sentiment :: "string \<Rightarrow> kol_sentiment list \<Rightarrow> kol_sentiment list" where
  "counted_for_sentiment k records =
     filter (\<lambda>r. return_1d r \<noteq> None \<and> lower (sentiment r) = k) records"

definition is_present :: "(kol_sentiment \<Rightarrow> npfloat option) \<Rightarrow> kol_sentiment \<Rightarrow> bool" where
  "is_present ret r = (ret r \<noteq> None)"

definition is_correct :: "(kol_sentiment \<Rightarrow> npfloat option) \<Rightarrow> kol_sentiment \<Rightarrow> bool" where
  "is_correct ret r =
     (case ret r of None \<Rightarrow> False | Some x \<Rightarrow> is_direction_correct (sentiment r) x \<noteq> 0)"

definition present_count :: "(kol_sentiment \<Rightarrow> npfloat option) \<Rightarrow> kol_sentiment list \<Rightarrow> nat" where
  "present_count ret records = length (filter (is_present ret) records)"

definition correct_count :: "(kol_sentiment \<Rightarrow> npfloat option) \<Rightarrow> kol_sentiment list \<Rightarrow> nat" where
  "correct_count ret records = length (filter (is_correct ret) records)"

section \<open>Inserting a prediction (KOLSentiment.py)\<close>

text \<open>The table: its rows in insertion order and the next primary key the database
  will hand out.\<close>

record database =
  rows :: "kol_sentiment list"
  next_id :: nat

text \<open>
  \<open>KOLSentimentDB.insert_record_with_returns\<close>. The two price lookups go through the
  network helper, so they are arguments here: \<open>get_stock_price ticker date\<close> is the
  entry price or \<open>None\<close> (the method catches every exception and returns \<open>None\<close>),
  and \<open>get_hist ticker date\<close> is what \<open>get_stock_data\<close> returns for the 20-day
  window that \<open>calculate_returns\<close> asks for. \<open>now\<close> is the clock, read when no
  prediction time is given. The result is the database and the returned \<open>record.id\<close>.
\<close>

definition insert_record_with_returns ::
  "(string \<Rightarrow> int \<Rightarrow> real option) \<Rightarrow> (string \<Rightarrow> int \<Rightarrow> real list option) \<Rightarrow> int \<Rightarrow>
   database \<Rightarrow> string \<Rightarrow> string \<Rightarrow> string \<Rightarrow> string \<Rightarrow> real \<Rightarrow> int option \<Rightarrow>
   database \<times> nat option" where
  "insert_record_with_returns get_stock_price get_hist now db
       kol_name_arg ticker_arg sector_arg sentiment_arg confidence_arg prediction_time_arg =
     (let ptime = (case prediction_time_arg of None \<Rightarrow> now | Some t \<Rightarrow> t);
          price = get_stock_price ticker_arg ptime;
          rec = \<lparr>row_id = None, prediction_time = ptime, kol_name = kol_name_arg,
                 ticker = ticker_arg, sector = sector_arg, sentiment = sentiment_arg,
                 confidence = confidence_arg, initial_price = price,
                 return_1d = None, return_3d = None, return_10d = None\<rparr>
      in case price of
           None \<Rightarrow> (db, row_id rec)
         | Some p \<Rightarrow>
             (case calculate_returns (get_hist ticker_arg ptime) p of
                (r1, r3, r10) \<Rightarrow>
                  let rec1 = rec\<lparr>return_1d := r1, return_3d := r3, return_10d := r10\<rparr>;
                      stored = rec1\<lparr>row_id := Some (next_id db)\<rparr>
                  in (\<lparr>rows = rows db @ [stored], next_id = next_id db + 1\<rparr>,
                      row_id stored)))"

section \<open>Composite grade (kol_grade_system.py)\<close>

datatype py_error = ZeroDivisionError | ValueError

text \<open>
  The grade is rounded to two decimals at its end, and a sum that is a tie in exact
  arithmetic is none in double arithmetic, so for this function the doubles are not
  idealised: every float operation is the exact operation followed by \<open>fl64\<close>, the
  rounding to the nearest double, ties going to the even significand. A magnitude
  \<open>a\<close> lies in the binade \<open>2 ^ k \<le> a < 2 ^ (k + 1)\<close> with \<open>k = \<lfloor>log 2 a\<rfloor>\<close>, where
  the doubles are the multiples of \<open>2 ^ (k - 52)\<close>. The exponent range is taken as
  unbounded: overflow and gradual underflow are outside the model.
\<close>

definition round_half_even :: "real \<Rightarrow> int" where
  "round_half_even x =
     (let f = \<lfloor>x\<rfloor>; d = x - of_int f
      in if d < 1 / 2 then f
         else if 1 / 2 < d then f + 1
         else if even f then f else f + 1)"

definition on_grid :: "real \<Rightarrow> real" where
  "on_grid a =
     (let ulp = 2 powr (of_int \<lfloor>log 2 a\<rfloor> - 52)
      in of_int (round_half_even (a / ulp)) * ulp)"

definition fl64 :: "real \<Rightarrow> real" where
  "fl64 x = sgn x * on_grid \<bar>x\<bar>"

text \<open>Python's \<open>round(x, 2)\<close> on a double: the exact value of \<open>x\<close> goes to the
  nearest multiple of 0.01, an exact tie to the even one (\<open>py_round2\<close>), and that
  decimal to the nearest double.\<close>

definition py_round2 :: "real \<Rightarrow> real" where
  "py_round2 x = of_int (round_half_even (x * 100)) / 100"

text \<open>\<open>calculate_kol_grade\<close>. \<open>sample_num / sample_norm\<close> divides two Python ints
  (the correctly rounded quotient) and raises ZeroDivisionError on a zero norm; the sum
  of the three products is taken from left to right.\<close>

definition calculate_kol_grade ::
  "real \<Rightarrow> real \<Rightarrow> int \<Rightarrow> real \<Rightarrow> real \<Rightarrow> real \<Rightarrow> int \<Rightarrow> py_error + real" where
  "calculate_kol_grade accuracy sharpe sample_num w_acc w_sharpe w_sample sample_norm =
     (if sample_norm = 0 then Inl ZeroDivisionError
      else
        let sample_score = min (fl64 (of_int sample_num / of_int sample_norm)) 1;
            sharpe_score = min (max (fl64 (sharpe / 2)) 0) 1;
            grade = fl64 (100 * fl64 (fl64 (fl64 (w_acc * accuracy)
                                              + fl64 (w_sharpe * sharpe_score))
                                        + fl64 (w_sample * sample_score)))
        in Inr (fl64 (py_round2 grade)))"

text \<open>The call with the default weights and norm: the doubles that the literals 0.5,
  0.3 and 0.2 denote, and 50.\<close>

definition calculate_kol_grade_default :: "real \<Rightarrow> real \<Rightarrow> int \<Rightarrow> py_error + real" where
  "calculate_kol_grade_default accuracy sharpe sample_num =
     calculate_kol_grade accuracy sharpe sample_num
       (fl64 (5 / 10)) (fl64 (3 / 10)) (fl64 (2 / 10)) 50"

section \<open>Period metrics (kol_performance_metrics.py)\<close>

fun np_sqrt :: "npfloat \<Rightarrow> npfloat" where
  "np_sqrt (Fin x) = (if x < 0 then NaN else Fin (sqrt x))"
| "np_sqrt PosInf = PosInf"
| "np_sqrt NegInf = NaN"
| "np_sqrt NaN = NaN"

text \<open>\<open>np.mean\<close> of a non-empty array.\<close>

definition np_mean :: "real list \<Rightarrow> real" where
  "np_mean xs = sum_list xs / real (length xs)"

text \<open>\<open>np.std(a, ddof=d)\<close>: the squared deviations from the mean are summed and
  divided by \<open>max(N - d, 0)\<close>, a float division that gives \<open>nan\<close> for 0/0, and the
  square root is taken.\<close>

definition np_std :: "real list \<Rightarrow> nat \<Rightarrow> npfloat" where
  "np_std xs ddof =
     (let m = np_mean xs;
          ss = sum_list (map (\<lambda>x. (x - m)\<^sup>2) xs);
          dof = max (int (length xs) - int ddof) 0
      in np_sqrt (np_div ss (of_int dof)))"

record period_metrics =
  mean_return :: real
  volatility :: npfloat
  sharpe_ratio :: real
  information_ratio :: real

text \<open>\<open>(mean - base) / volatility if volatility > 0 else 0.0\<close>: the comparison is
  false for \<open>nan\<close>, and a quotient by \<open>inf\<close> is zero.\<close>

fun ratio_over :: "real \<Rightarrow> npfloat \<Rightarrow> real" where
  "ratio_over excess (Fin v) = (if 0 < v then excess / v else 0)"
| "ratio_over excess PosInf = 0"
| "ratio_over excess NegInf = 0"
| "ratio_over excess NaN = 0"

definition calculate_period_metrics :: "real list \<Rightarrow> period_metrics" where
  "calculate_period_metrics returns =
     (if returns = []
      then \<lparr>mean_return = 0, volatility = Fin 0, sharpe_ratio = 0, information_ratio = 0\<rparr>
      else
        let mean = np_mean returns;
            risk_free_rate = 1 / 1000;
            vol = np_std returns 1;
            sharpe = ratio_over (mean - risk_free_rate) vol;
            benchmark_return = 1 / 100;
            tracking_error = vol;
            info = ratio_over (mean - benchmark_return) tracking_error
        in \<lparr>mean_return = mean, volatility = vol, sharpe_ratio = sharpe,
             information_ratio = info\<rparr>)"

section \<open>Price acquisition (yfinance_helper.py)\<close>

subsection \<open>Data frames, the cache directory, the upstream source\<close>

text \<open>
  A pandas frame as far as the helper looks at it: a frame with plain columns, given by
  its rows (the closing prices), or the frame of a \<open>group_by='ticker'\<close> download,
  whose columns are grouped under a first level of ticker names.
\<close>

datatype dataframe = Plain "real list" | Grouped "(string \<times> real list) list"

fun df_empty :: "dataframe \<Rightarrow> bool" where
  "df_empty (Plain rs) = (rs = [])"
| "df_empty (Grouped cols) = list_all (\<lambda>(t, c). c = []) cols"

text \<open>A file of the cache directory: its modification time and the pickled frame.
  The directory is the list of its entries by file name.\<close>

record cache_file =
  mtime :: real
  content :: dataframe

type_synonym cache_dir = "(string \<times> cache_file) list"

definition remove_file :: "string \<Rightarrow> cache_dir \<Rightarrow> cache_dir" where
  "remove_file name files = filter (\<lambda>(n, f). n \<noteq> name) files"

fun write_file :: "string \<Rightarrow> cache_file \<Rightarrow> cache_dir \<Rightarrow> cache_dir" where
  "write_file name f [] = [(name, f)]"
| "write_file name f ((n, g) # files) =
     (if n = name then (n, f) # files else (n, g) # write_file name f files)"

text \<open>\<open>yf.download\<close> is called with one ticker or with a list of tickers; it returns a
  frame or raises. The handler of \<open>get_stock_data\<close> tells two kinds of exception
  apart by their message: a rate limit, and anything else.\<close>

datatype tickers_arg = One string | Many "string list"

datatype download_error = RateLimited | OtherFailure

type_synonym upstream = "nat \<Rightarrow> tickers_arg \<Rightarrow> download_error + dataframe"

text \<open>What a call does to the outside: upstream calls and sleeps, in order.
  \<open>SleepUniform lo hi\<close> is a sleep of \<open>random.uniform(lo, hi)\<close> seconds,
  \<open>SleepBackoff n\<close> one of \<open>2 ** n + random.uniform(1, 3)\<close> seconds.\<close>

datatype event = Download tickers_arg | SleepUniform real real | SleepBackoff nat | Sleep real

text \<open>The state a call runs in: the cache directory, the number of upstream calls made
  so far (the upstream's answer may depend on it) and the events so far.\<close>

record world =
  cache :: cache_dir
  calls :: nat
  log :: "event list"

record helper =
  delay_min :: real
  delay_max :: real

definition download :: "upstream \<Rightarrow> tickers_arg \<Rightarrow> world \<Rightarrow> (download_error + dataframe) \<times> world" where
  "download up arg w = (up (calls w) arg, w\<lparr>calls := calls w + 1, log := log w @ [Download arg]\<rparr>)"

definition sleep :: "event \<Rightarrow> world \<Rightarrow> world" where
  "sleep ev w = w\<lparr>log := log w @ [ev]\<rparr>"

definition random_delay :: "helper \<Rightarrow> world \<Rightarrow> world" where
  "random_delay h w = sleep (SleepUniform (delay_min h) (delay_max h)) w"

subsection \<open>The cache\<close>

definition get_cache_path :: "string \<Rightarrow> string \<Rightarrow> string \<Rightarrow> string" where
  "get_cache_path tick start_date end_date =
     tick @ ''_'' @ start_date @ ''_'' @ end_date @ ''.pkl''"

text \<open>\<open>_load_from_cache\<close>: the file must exist and be younger than 24 hours at the
  clock reading \<open>now\<close>, which is taken as one value for the whole call.\<close>

definition load_from_cache :: "real \<Rightarrow> string \<Rightarrow> string \<Rightarrow> string \<Rightarrow> world \<Rightarrow> dataframe option" where
  "load_from_cache now tick start_date end_date w =
     (case map_of (cache w) (get_cache_path tick start_date end_date) of
        None \<Rightarrow> None
      | Some f \<Rightarrow> if now - mtime f < 24 * 3600 then Some (content f) else None)"

definition save_to_cache :: "real \<Rightarrow> string \<Rightarrow> string \<Rightarrow> string \<Rightarrow> dataframe \<Rightarrow> world \<Rightarrow> world" where
  "save_to_cache now tick start_date end_date data w =
     w\<lparr>cache := write_file (get_cache_path tick start_date end_date)
                   \<lparr>mtime = now, content = data\<rparr> (cache w)\<rparr>"

definition endswith :: "string \<Rightarrow> string \<Rightarrow> bool" where
  "endswith s suf = (length suf \<le> length s \<and> drop (length s - length suf) s = suf)"

text \<open>
  \<open>clear_cache\<close>. The directory is \<open>None\<close> when it does not exist. The loop runs over
  the listing taken at its start; \<open>os.remove\<close> deletes by name. The result is the
  directory afterwards, the count the final \<open>print\<close> shows (nothing is printed when
  the directory is missing) and the value the call returns: the function has no
  \<open>return\<close> with a value, so that is always \<open>None\<close>.
\<close>

fun clear_cache_loop :: "real \<Rightarrow> cache_dir \<Rightarrow> cache_dir \<times> nat \<Rightarrow> cache_dir \<times> nat" where
  "clear_cache_loop cutoff_time [] (files, removed_count) = (files, removed_count)"
| "clear_cache_loop cutoff_time ((filename, f) # listing) (files, removed_count) =
     (if endswith filename ''.pkl'' \<and> mtime f < cutoff_time
      then clear_cache_loop cutoff_time listing (remove_file filename files, removed_count + 1)
      else clear_cache_loop cutoff_time listing (files, removed_count))"

definition clear_cache ::
  "cache_dir option \<Rightarrow> real \<Rightarrow> int \<Rightarrow> cache_dir option \<times> nat option \<times> nat option" where
  "clear_cache dir now older_than_days =
     (case dir of
        None \<Rightarrow> (None, None, None)
      | Some files \<Rightarrow>
          let cutoff_time = now - of_int older_than_days * 24 * 3600
          in case clear_cache_loop cutoff_time files (files, 0) of
               (files', removed_count) \<Rightarrow> (Some files', Some removed_count, None))"

text \<open>For the statement: a cache entry (a \<open>.pkl\<close> file) whose age at \<open>now\<close> exceeds
  the threshold in days.\<close>

definition older_than :: "real \<Rightarrow> int \<Rightarrow> string \<times> cache_file \<Rightarrow> bool" where
  "older_than now days e =
     (endswith (fst e) ''.pkl'' \<and> now - mtime (snd e) > of_int days * 24 * 3600)"

subsection \<open>Fetching one ticker\<close>

text \<open>
  The retry loop of \<open>get_stock_data\<close>, \<open>for attempt in range(max_retries)\<close>. From
  the second attempt on a random delay comes first. A non-empty frame is cached and
  returned. An empty frame only prints a warning, and the loop goes on to the next
  attempt. A rate-limit exception sleeps with backoff and goes on; any other exception
  sleeps a second and goes on, or breaks out of the loop on the last attempt.
\<close>

function attempt_loop ::
  "upstream \<Rightarrow> helper \<Rightarrow> real \<Rightarrow> string \<Rightarrow> string \<Rightarrow> string \<Rightarrow> int \<Rightarrow> nat \<Rightarrow> world \<Rightarrow>
   dataframe option \<times> world" where
  "attempt_loop up h now tick start_date end_date max_retries attempt w =
     (if \<not> int attempt < max_retries then (None, w)
      else
        case download up (One tick) (if attempt > 0 then random_delay h w else w) of
          (Inr data, w2) \<Rightarrow>
            if \<not> df_empty data
            then (Some data, save_to_cache now tick start_date end_date data w2)
            else attempt_loop up h now tick start_date end_date max_retries (attempt + 1) w2
        | (Inl RateLimited, w2) \<Rightarrow>
            attempt_loop up h now tick start_date end_date max_retries (attempt + 1)
              (sleep (SleepBackoff attempt) w2)
        | (Inl OtherFailure, w2) \<Rightarrow>
            if int attempt < max_retries - 1
            then attempt_loop up h now tick start_date end_date max_retries (attempt + 1)
                   (sleep (Sleep 1) w2)
            else (None, w2))"
  by pat_completeness auto
termination
  by (relation "measure (\<lambda>(up, h, now, tick, s, e, max_retries, attempt, w).
        nat (max_retries - int attempt))") auto

declare attempt_loop.simps [simp del]

definition get_stock_data ::
  "upstream \<Rightarrow> helper \<Rightarrow> real \<Rightarrow> string \<Rightarrow> string \<Rightarrow> string \<Rightarrow> int \<Rightarrow> world \<Rightarrow>
   dataframe option \<times> world" where
  "get_stock_data up h now tick start_date end_date max_retries w =
     (case load_from_cache now tick start_date end_date w of
        Some cached_data \<Rightarrow> (Some cached_data, w)
      | None \<Rightarrow> attempt_loop up h now tick start_date end_date max_retries 0 w)"

subsection \<open>Fetching a batch in bulk\<close>

text \<open>The first loop of a batch: the tickers found in the cache go to the results, the
  others are collected as uncached.\<close>

fun check_cache ::
  "real \<Rightarrow> string \<Rightarrow> string \<Rightarrow> world \<Rightarrow> string list \<Rightarrow> (string \<rightharpoonup> dataframe) \<Rightarrow>
   string list \<times> string list \<times> (string \<rightharpoonup> dataframe)" where
  "check_cache now start_date end_date w [] results = ([], [], results)"
| "check_cache now start_date end_date w (t # batch) results =
     (case load_from_cache now t start_date end_date w of
        Some cached_data \<Rightarrow>
          (case check_cache now start_date end_date w batch (results(t \<mapsto> cached_data)) of
             (cached_tickers, uncached_tickers, results') \<Rightarrow>
               (t # cached_tickers, uncached_tickers, results'))
      | None \<Rightarrow>
          (case check_cache now start_date end_date w batch results of
             (cached_tickers, uncached_tickers, results') \<Rightarrow>
               (cached_tickers, t # uncached_tickers, results')))"

text \<open>Taking a bulk frame apart, ticker by ticker. On a frame without grouped columns
  the lookup of the first column level raises, which the inner handler absorbs.\<close>

fun demux_bulk ::
  "real \<Rightarrow> string \<Rightarrow> string \<Rightarrow> dataframe \<Rightarrow> string list \<Rightarrow>
   (string \<rightharpoonup> dataframe) \<times> world \<Rightarrow> (string \<rightharpoonup> dataframe) \<times> world" where
  "demux_bulk now start_date end_date bulk_data [] (results, w) = (results, w)"
| "demux_bulk now start_date end_date bulk_data (t # ts) (results, w) =
     demux_bulk now start_date end_date bulk_data ts
       (case bulk_data of
          Plain rs \<Rightarrow> (results, w)
        | Grouped cols \<Rightarrow>
            (case map_of cols t of
               None \<Rightarrow> (results, w)
             | Some c \<Rightarrow>
                 if \<not> df_empty (Plain c)
                 then (results(t \<mapsto> Plain c),
                       save_to_cache now t start_date end_date (Plain c) w)
                 else (results, w)))"

text \<open>The handler of the batch: every uncached ticker is fetched on its own (with the
  default of three attempts), followed by a random delay.\<close>

fun fallback_individual ::
  "upstream \<Rightarrow> helper \<Rightarrow> real \<Rightarrow> string \<Rightarrow> string \<Rightarrow> string list \<Rightarrow>
   (string \<rightharpoonup> dataframe) \<times> world \<Rightarrow> (string \<rightharpoonup> dataframe) \<times> world" where
  "fallback_individual up h now start_date end_date [] (results, w) = (results, w)"
| "fallback_individual up h now start_date end_date (t # ts) (results, w) =
     (case get_stock_data up h now t start_date end_date 3 w of
        (data, w1) \<Rightarrow>
          fallback_individual up h now start_date end_date ts
            (case data of None \<Rightarrow> results | Some d \<Rightarrow> results(t \<mapsto> d), random_delay h w1))"

text \<open>The body of the batch loop: the \<open>try\<close> block and its handler. Only the
  upstream call can raise in the block.\<close>

definition process_batch ::
  "upstream \<Rightarrow> helper \<Rightarrow> real \<Rightarrow> string \<Rightarrow> string \<Rightarrow> string list \<Rightarrow>
   (string \<rightharpoonup> dataframe) \<times> world \<Rightarrow> (string \<rightharpoonup> dataframe) \<times> world" where
  "process_batch up h now start_date end_date batch rw =
     (let results = fst rw; w = snd rw in
      case check_cache now start_date end_date w batch results of
        (cached_tickers, uncached_tickers, results1) \<Rightarrow>
          if uncached_tickers = [] then (results1, w)
          else
            (case download up (Many uncached_tickers) w of
              (Inr bulk_data, w1) \<Rightarrow>
                if \<not> df_empty bulk_data
                then (case uncached_tickers of
                        [t] \<Rightarrow> (results1(t \<mapsto> bulk_data),
                                save_to_cache now t start_date end_date bulk_data w1)
                      | _ \<Rightarrow> demux_bulk now start_date end_date bulk_data uncached_tickers
                               (results1, w1))
                else (results1, w1)
            | (Inl err, w1) \<Rightarrow>
                fallback_individual up h now start_date end_date uncached_tickers
                  (results1, w1)))"

text \<open>\<open>_batch_download_bulk\<close>: \<open>for i in range(0, len(tickers), batch_size)\<close>, with
  the pause between batches. A zero step makes \<open>range\<close> raise, a negative one gives
  no batch at all.\<close>

function batch_loop ::
  "upstream \<Rightarrow> helper \<Rightarrow> real \<Rightarrow> string list \<Rightarrow> string \<Rightarrow> string \<Rightarrow> nat \<Rightarrow> real \<Rightarrow> nat \<Rightarrow>
   (string \<rightharpoonup> dataframe) \<times> world \<Rightarrow> (string \<rightharpoonup> dataframe) \<times> world" where
  "batch_loop up h now tickers start_date end_date batch_size delay i rw =
     (if batch_size = 0 \<or> length tickers \<le> i then rw
      else
        case process_batch up h now start_date end_date (take batch_size (drop i tickers)) rw of
          (results, w) \<Rightarrow>
            batch_loop up h now tickers start_date end_date batch_size delay (i + batch_size)
              (results, if i + batch_size < length tickers then sleep (Sleep delay) w else w))"
  by pat_completeness auto
termination
  by (relation "measure (\<lambda>(up, h, now, tickers, s, e, batch_size, delay, i, rw).
        length tickers - i)") auto

declare batch_loop.simps [simp del]

definition batch_download_bulk ::
  "upstream \<Rightarrow> helper \<Rightarrow> real \<Rightarrow> string list \<Rightarrow> string \<Rightarrow> string \<Rightarrow> int \<Rightarrow> real \<Rightarrow> world \<Rightarrow>
   py_error + (string \<rightharpoonup> dataframe) \<times> world" where
  "batch_download_bulk up h now tickers start_date end_date batch_size delay w =
     (if batch_size = 0 then Inl ValueError
      else if batch_size < 0 then Inr (Map.empty, w)
      else Inr (batch_loop up h now tickers start_date end_date (nat batch_size) delay 0
                  (Map.empty, w)))"

text \<open>For the statements: the tickers of a batch that miss the cache.\<close>

definition cache_misses :: "real \<Rightarrow> string \<Rightarrow> string \<Rightarrow> world \<Rightarrow> string list \<Rightarrow> string list" where
  "cache_misses now start_date end_date w batch =
     filter (\<lambda>t. load_from_cache now t start_date end_date w = None) batch"

definition downloads :: "event list \<Rightarrow> tickers_arg list" where
  "downloads evs = concat (map (\<lambda>ev. case ev of Download a \<Rightarrow> [a] | _ \<Rightarrow> []) evs)"

section \<open>Verification\<close>

subsection \<open>Return calculation\<close>

lemma np_div_nonzero: "p \<noteq> 0 \<Longrightarrow> np_div x p = Fin (x / p)"
  by (simp add: np_div_def)

lemma calculate_returns_Some:
  "calculate_returns (Some h) p =
     (if 1 < length h then Some (np_div (h ! 1 - p) p) else None,
      if 3 < length h then Some (np_div (h ! 3 - p) p) else None,
      if 10 < length h then Some (np_div (h ! 10 - p) p) else None)"
  by (cases h) (simp_all add: calculate_returns_def Let_def)

text \<open>
  C1. For every price series and each horizon 1, 3 and 10, the horizon's return is
  present exactly when the series has more bars than the horizon, and it is then the
  quotient of (close at that index minus entry price) by the entry price; for a
  nonzero entry price this is the finite value \<open>(series[h] - p) / p\<close>.
\<close>

theorem calculate_returns_horizons:
  "calculate_returns (Some series) p =
     (if 1 < length series then Some (np_div (series ! 1 - p) p) else None,
      if 3 < length series then Some (np_div (series ! 3 - p) p) else None,
      if 10 < length series then Some (np_div (series ! 10 - p) p) else None)
   \<and> (p \<noteq> 0 \<longrightarrow> np_div (c - p) p = Fin ((c - p) / p))"
  by (simp add: calculate_returns_Some np_div_nonzero)

theorem calculate_returns_horizons_witness:
  "(100::real) \<noteq> 0 \<and>
   calculate_returns (Some [100, 110, 121]) 100 = (Some (Fin (1 / 10)), None, None)"
  using calculate_returns_horizons [of "[100, 110, 121]" 100 110]
  by simp

text \<open>
  C5. The claim asks for an InvalidInput failure on a zero entry price. The source has
  no such check: the division is carried out by numpy, which returns an infinity (or
  \<open>nan\<close>) instead of raising, and the value is returned as the horizon's return.
\<close>

theorem calculate_returns_zero_entry_counterexample:
  "calculate_returns (Some [1, 2]) 0 = (Some PosInf, None, None)"
  by (simp add: calculate_returns_Some np_div_def)

text \<open>
  C5 as amended. With an entry price of zero the calculation still returns normally:
  every horizon whose bar exists gets a non-finite value, \<open>inf\<close> for a positive
  close, \<open>-inf\<close> for a negative one and \<open>nan\<close> for a zero close; the other
  horizons are absent.
\<close>

theorem calculate_returns_zero_entry:
  "calculate_returns (Some series) 0 =
     (if 1 < length series then Some (np_div (series ! 1) 0) else None,
      if 3 < length series then Some (np_div (series ! 3) 0) else None,
      if 10 < length series then Some (np_div (series ! 10) 0) else None)
   \<and> np_div c 0 = (if 0 < c then PosInf else if c < 0 then NegInf else NaN)
   \<and> np_div c 0 \<noteq> Fin r"
  by (simp add: calculate_returns_Some np_div_def)

theorem calculate_returns_zero_entry_witness:
  "calculate_returns (Some [3, 0, -2, 5]) 0 = (Some NaN, Some PosInf, None)"
  using calculate_returns_zero_entry [of "[3, 0, -2, 5]" 0]
    calculate_returns_zero_entry [of "[3, 0, -2, 5]" 5]
  by simp

subsection \<open>Direction accuracy\<close>

lemma lower_char_code:
  "of_char (lower_char c) =
     (let n = (of_char c :: nat) in if 65 \<le> n \<and> n \<le> 90 then n + 32 else n)"
  by (cases c) (simp add: Let_def)

text \<open>
  C3. For a finite return, the verdict is 1 exactly when the lower-cased sentiment is
  positive and the return is above zero, negative and the return is below zero, or
  neutral and the absolute return is below 0.01; both copies of the function agree; and
  the four sample classifications come out as stated.
\<close>

theorem is_direction_correct_rule:
  "is_direction_correct s (Fin r) =
     (if lower s = ''positive'' then (if 0 < r then 1 else 0)
      else if lower s = ''negative'' then (if r < 0 then 1 else 0)
      else if lower s = ''neutral'' then (if \<bar>r\<bar> < 1 / 100 then 1 else 0)
      else 0)
   \<and> is_direction_correct_pm s x = is_direction_correct s x
   \<and> is_direction_correct ''positive'' (Fin (3 / 100)) = 1
   \<and> is_direction_correct ''positive'' (Fin (- 1 / 100)) = 0
   \<and> is_direction_correct ''neutral'' (Fin (5 / 1000)) = 1
   \<and> is_direction_correct ''neutral'' (Fin (2 / 100)) = 0"
  by (simp add: is_direction_correct_def is_direction_correct_pm_def lower_def)

theorem is_direction_correct_rule_witness:
  "is_direction_correct ''Negative'' (Fin (- 2 / 100)) = 1
   \<and> is_direction_correct_pm ''NEUTRAL'' (Fin (1 / 100)) = 0"
  using is_direction_correct_rule [of "''Negative''" "- 2 / 100" "Fin 0"]
    is_direction_correct_rule [of "''NEUTRAL''" "1 / 100" "Fin (1 / 100)"]
  by (simp add: lower_def)

subsection \<open>Accuracy statistics\<close>

lemma total_fold_count_record:
  "total (fold count_record cs st) = total st + length cs"
  by (induction cs arbitrary: st) (simp_all add: count_record_def)

lemma score_horizon_add:
  "score_horizon (sentiment r) (ret r) n = n + (if is_correct ret r then 1 else 0)"
  by (simp add: score_horizon_def is_correct_def split: option.splits)

lemma correct_1d_fold_count_record:
  "correct_1d (fold count_record cs st) = correct_1d st + correct_count return_1d cs"
  by (induction cs arbitrary: st)
     (simp_all add: count_record_def correct_count_def score_horizon_add)

lemma correct_3d_fold_count_record:
  "correct_3d (fold count_record cs st) = correct_3d st + correct_count return_3d cs"
  by (induction cs arbitrary: st)
     (simp_all add: count_record_def correct_count_def score_horizon_add)

lemma correct_10d_fold_count_record:
  "correct_10d (fold count_record cs st) = correct_10d st + correct_count return_10d cs"
  by (induction cs arbitrary: st)
     (simp_all add: count_record_def correct_count_def score_horizon_add)

lemma counted_for_kol_Cons:
  "counted_for_kol k (r # rs) =
     (if return_1d r \<noteq> None \<and> kol_name r = k then r # counted_for_kol k rs
      else counted_for_kol k rs)"
  by (simp add: counted_for_kol_def)

lemma kol_stats_step_apply:
  "kol_stats_step r m k =
     (if return_1d r \<noteq> None \<and> kol_name r = k
      then Some (count_record r (case m k of None \<Rightarrow> fresh_stats | Some st \<Rightarrow> st))
      else m k)"
  by (simp add: kol_stats_step_def Let_def)

lemma fold_kol_stats_step:
  "fold kol_stats_step records m k =
     (if counted_for_kol k records = [] then m k
      else Some (fold count_record (counted_for_kol k records)
                   (case m k of None \<Rightarrow> fresh_stats | Some st \<Rightarrow> st)))"
proof (induction records arbitrary: m)
  case Nil
  show ?case by (simp add: counted_for_kol_def)
next
  case (Cons r rs)
  have "fold kol_stats_step (r # rs) m k = fold kol_stats_step rs (kol_stats_step r m) k"
    by simp
  also have "\<dots> =
     (if counted_for_kol k rs = [] then kol_stats_step r m k
      else Some (fold count_record (counted_for_kol k rs)
                   (case kol_stats_step r m k of None \<Rightarrow> fresh_stats | Some st \<Rightarrow> st)))"
    by (rule Cons.IH)
  also have "\<dots> =
     (if counted_for_kol k (r # rs) = [] then m k
      else Some (fold count_record (counted_for_kol k (r # rs))
                   (case m k of None \<Rightarrow> fresh_stats | Some st \<Rightarrow> st)))"
    by (simp add: counted_for_kol_Cons kol_stats_step_apply)
  finally show ?case .
qed

lemma counted_for_sentiment_Cons:
  "counted_for_sentiment k (r # rs) =
     (if return_1d r \<noteq> None \<and> lower (sentiment r) = k then r # counted_for_sentiment k rs
      else counted_for_sentiment k rs)"
  by (simp add: counted_for_sentiment_def)

lemma sentiment_stats_step_apply:
  "sentiment_stats_step r m k =
     (if return_1d r \<noteq> None \<and> lower (sentiment r) = k
      then map_option (count_record r) (m k)
      else m k)"
  by (simp add: sentiment_stats_step_def Let_def split: option.splits)

lemma fold_sentiment_stats_step:
  "fold sentiment_stats_step records m k =
     map_option (fold count_record (counted_for_sentiment k records)) (m k)"
proof (induction records arbitrary: m)
  case Nil
  show ?case by (simp add: counted_for_sentiment_def option.map_ident)
next
  case (Cons r rs)
  have "fold sentiment_stats_step (r # rs) m k =
        fold sentiment_stats_step rs (sentiment_stats_step r m) k"
    by simp
  also have "\<dots> =
     map_option (fold count_record (counted_for_sentiment k rs)) (sentiment_stats_step r m k)"
    by (rule Cons.IH)
  also have "\<dots> = map_option (fold count_record (counted_for_sentiment k (r # rs))) (m k)"
    by (cases "m k") (simp_all add: counted_for_sentiment_Cons sentiment_stats_step_apply)
  finally show ?case .
qed

lemma set_accuracies_fields:
  "total (set_accuracies st) = total st"
  "correct_1d (set_accuracies st) = correct_1d st"
  "correct_3d (set_accuracies st) = correct_3d st"
  "correct_10d (set_accuracies st) = correct_10d st"
  "accuracy_1d (set_accuracies st) =
     (if 0 < total st then real (correct_1d st) / real (total st) else accuracy_1d st)"
  "accuracy_3d (set_accuracies st) =
     (if 0 < total st then real (correct_3d st) / real (total st) else accuracy_3d st)"
  "accuracy_10d (set_accuracies st) =
     (if 0 < total st then real (correct_10d st) / real (total st) else accuracy_10d st)"
  by (simp_all add: set_accuracies_def)

lemma accuracy_fold_count_record:
  "accuracy_1d (fold count_record cs st) = accuracy_1d st"
  "accuracy_3d (fold count_record cs st) = accuracy_3d st"
  "accuracy_10d (fold count_record cs st) = accuracy_10d st"
  by (induction cs arbitrary: st) (simp_all add: count_record_def)

lemma get_kol_performance_stats_eq:
  "get_kol_performance_stats records k =
     (if counted_for_kol k records = [] then None
      else Some (set_accuracies (fold count_record (counted_for_kol k records) fresh_stats)))"
  by (simp add: get_kol_performance_stats_def fold_kol_stats_step)

lemma analyze_sentiment_accuracy_eq:
  "analyze_sentiment_accuracy records k =
     (if k \<in> {''positive'', ''negative'', ''neutral''}
      then Some (set_accuracies (fold count_record (counted_for_sentiment k records) fresh_stats))
      else None)"
  by (simp add: analyze_sentiment_accuracy_def fold_sentiment_stats_step sentiment_stats_init_def)

text \<open>
  C7. The claim has each horizon's rate divided by the number of events whose return at
  that horizon is present. The source divides all three rates by the one counter that
  is raised for every record with a present 1-day return. Two records of one
  commentator, both with a correct 1-day call, one of them without a 3-day return:
  one correct 3-day call, one present 3-day return, two present 1-day returns, and a
  3-day rate of one half.
\<close>

theorem horizon_accuracy_denominator_counterexample:
  "map_option accuracy_3d
     (get_kol_performance_stats
        [\<lparr>row_id = Some 1, prediction_time = 0, kol_name = ''alice'', ticker = ''AAPL'',
          sector = ''Technology'', sentiment = ''positive'', confidence = 9 / 10,
          initial_price = Some 100, return_1d = Some (Fin (5 / 100)),
          return_3d = Some (Fin (5 / 100)), return_10d = None\<rparr>,
         \<lparr>row_id = Some 2, prediction_time = 1, kol_name = ''alice'', ticker = ''MSFT'',
          sector = ''Technology'', sentiment = ''positive'', confidence = 8 / 10,
          initial_price = Some 200, return_1d = Some (Fin (5 / 100)),
          return_3d = None, return_10d = None\<rparr>]
        ''alice'') = Some (1 / 2)
   \<and> correct_count return_3d
        [\<lparr>row_id = Some 1, prediction_time = 0, kol_name = ''alice'', ticker = ''AAPL'',
          sector = ''Technology'', sentiment = ''positive'', confidence = 9 / 10,
          initial_price = Some 100, return_1d = Some (Fin (5 / 100)),
          return_3d = Some (Fin (5 / 100)), return_10d = None\<rparr>,
         \<lparr>row_id = Some 2, prediction_time = 1, kol_name = ''alice'', ticker = ''MSFT'',
          sector = ''Technology'', sentiment = ''positive'', confidence = 8 / 10,
          initial_price = Some 200, return_1d = Some (Fin (5 / 100)),
          return_3d = None, return_10d = None\<rparr>] = 1
   \<and> present_count return_3d
        [\<lparr>row_id = Some 1, prediction_time = 0, kol_name = ''alice'', ticker = ''AAPL'',
          sector = ''Technology'', sentiment = ''positive'', confidence = 9 / 10,
          initial_price = Some 100, return_1d = Some (Fin (5 / 100)),
          return_3d = Some (Fin (5 / 100)), return_10d = None\<rparr>,
         \<lparr>row_id = Some 2, prediction_time = 1, kol_name = ''alice'', ticker = ''MSFT'',
          sector = ''Technology'', sentiment = ''positive'', confidence = 8 / 10,
          initial_price = Some 200, return_1d = Some (Fin (5 / 100)),
          return_3d = None, return_10d = None\<rparr>] = 1"
  by (simp add: get_kol_performance_stats_def kol_stats_step_def count_record_def
      score_horizon_def is_direction_correct_def lower_def fresh_stats_def
      set_accuracies_def correct_count_def present_count_def is_correct_def is_present_def)

text \<open>
  C7 as amended. A record without a 1-day return is skipped altogether. For a
  commentator (and, in \<open>analyze_sentiment_accuracy\<close>, for each of the three
  sentiments) the counter is the number of records with a present 1-day return, and the
  rate at every horizon is the number of those records whose call at that horizon is
  present and correct, divided by that same counter: a record whose 3-day or 10-day
  return is absent adds nothing to the numerator and stays in the denominator.
\<close>

theorem horizon_accuracy_denominator:
  "(get_kol_performance_stats records k = Some st \<longrightarrow>
      total st = present_count return_1d (counted_for_kol k records)
      \<and> total st = length (counted_for_kol k records)
      \<and> 0 < total st
      \<and> accuracy_1d st =
          real (correct_count return_1d (counted_for_kol k records)) / real (total st)
      \<and> accuracy_3d st =
          real (correct_count return_3d (counted_for_kol k records)) / real (total st)
      \<and> accuracy_10d st =
          real (correct_count return_10d (counted_for_kol k records)) / real (total st))
   \<and> (analyze_sentiment_accuracy records s = Some st' \<longrightarrow>
      total st' = present_count return_1d (counted_for_sentiment s records)
      \<and> total st' = length (counted_for_sentiment s records)
      \<and> (0 < total st' \<longrightarrow>
           accuracy_1d st' =
             real (correct_count return_1d (counted_for_sentiment s records)) / real (total st')
           \<and> accuracy_3d st' =
             real (correct_count return_3d (counted_for_sentiment s records)) / real (total st')
           \<and> accuracy_10d st' =
             real (correct_count return_10d (counted_for_sentiment s records)) / real (total st'))
      \<and> (total st' = 0 \<longrightarrow>
           accuracy_1d st' = 0 \<and> accuracy_3d st' = 0 \<and> accuracy_10d st' = 0))"
proof (intro conjI impI)
  assume a: "get_kol_performance_stats records k = Some st"
  define cs where "cs = counted_for_kol k records"
  from a have ne: "cs \<noteq> []"
    and st: "st = set_accuracies (fold count_record cs fresh_stats)"
    by (auto simp: get_kol_performance_stats_eq cs_def split: if_splits)
  have "filter (is_present return_1d) cs = cs"
    by (rule filter_True) (simp add: cs_def counted_for_kol_def is_present_def)
  then have p1: "present_count return_1d cs = length cs"
    by (simp add: present_count_def)
  have tot: "total st = length cs"
    by (simp add: st set_accuracies_fields total_fold_count_record fresh_stats_def)
  show "total st = present_count return_1d (counted_for_kol k records)"
    using tot p1 by (simp add: cs_def)
  show "total st = length (counted_for_kol k records)"
    using tot by (simp add: cs_def)
  show "0 < total st" using tot ne by simp
  have pos: "0 < total (fold count_record cs fresh_stats)"
    using ne by (simp add: total_fold_count_record)
  show "accuracy_1d st =
          real (correct_count return_1d (counted_for_kol k records)) / real (total st)"
    using pos
    by (simp add: st set_accuracies_fields correct_1d_fold_count_record fresh_stats_def
        cs_def [symmetric])
  show "accuracy_3d st =
          real (correct_count return_3d (counted_for_kol k records)) / real (total st)"
    using pos
    by (simp add: st set_accuracies_fields correct_3d_fold_count_record fresh_stats_def
        cs_def [symmetric])
  show "accuracy_10d st =
          real (correct_count return_10d (counted_for_kol k records)) / real (total st)"
    using pos
    by (simp add: st set_accuracies_fields correct_10d_fold_count_record fresh_stats_def
        cs_def [symmetric])
next
  assume a: "analyze_sentiment_accuracy records s = Some st'"
  define cs where "cs = counted_for_sentiment s records"
  from a have st: "st' = set_accuracies (fold count_record cs fresh_stats)"
    by (auto simp: analyze_sentiment_accuracy_eq cs_def split: if_splits)
  have "filter (is_present return_1d) cs = cs"
    by (rule filter_True) (simp add: cs_def counted_for_sentiment_def is_present_def)
  then have p1: "present_count return_1d cs = length cs"
    by (simp add: present_count_def)
  have tot: "total st' = length cs"
    by (simp add: st set_accuracies_fields total_fold_count_record fresh_stats_def)
  show "total st' = present_count return_1d (counted_for_sentiment s records)"
    using tot p1 by (simp add: cs_def)
  show "total st' = length (counted_for_sentiment s records)"
    using tot by (simp add: cs_def)
  {
    assume "0 < total st'"
    then have pos: "0 < total (fold count_record cs fresh_stats)"
      by (simp add: st set_accuracies_fields)
    show "accuracy_1d st' =
            real (correct_count return_1d (counted_for_sentiment s records)) / real (total st')"
      using pos
      by (simp add: st set_accuracies_fields correct_1d_fold_count_record fresh_stats_def
          cs_def [symmetric])
    show "accuracy_3d st' =
            real (correct_count return_3d (counted_for_sentiment s records)) / real (total st')"
      using pos
      by (simp add: st set_accuracies_fields correct_3d_fold_count_record fresh_stats_def
          cs_def [symmetric])
    show "accuracy_10d st' =
            real (correct_count return_10d (counted_for_sentiment s records)) / real (total st')"
      using pos
      by (simp add: st set_accuracies_fields correct_10d_fold_count_record fresh_stats_def
          cs_def [symmetric])
  }
  {
    assume "total st' = 0"
    then have z: "total (fold count_record cs fresh_stats) = 0"
      by (simp add: st set_accuracies_fields)
    show "accuracy_1d st' = 0"
      using z by (simp add: st set_accuracies_fields accuracy_fold_count_record fresh_stats_def)
    show "accuracy_3d st' = 0"
      using z by (simp add: st set_accuracies_fields accuracy_fold_count_record fresh_stats_def)
    show "accuracy_10d st' = 0"
      using z by (simp add: st set_accuracies_fields accuracy_fold_count_record fresh_stats_def)
  }
qed


theorem horizon_accuracy_denominator_witness:
  "get_kol_performance_stats
        [\<lparr>row_id = Some 1, prediction_time = 0, kol_name = ''alice'', ticker = ''AAPL'',
          sector = ''Technology'', sentiment = ''positive'', confidence = 9 / 10,
          initial_price = Some 100, return_1d = Some (Fin (5 / 100)),
          return_3d = Some (Fin (5 / 100)), return_10d = None\<rparr>,
         \<lparr>row_id = Some 2, prediction_time = 1, kol_name = ''alice'', ticker = ''MSFT'',
          sector = ''Technology'', sentiment = ''positive'', confidence = 8 / 10,
          initial_price = Some 200, return_1d = Some (Fin (5 / 100)),
          return_3d = None, return_10d = None\<rparr>]
        ''alice'' = Some \<lparr>total = 2, correct_1d = 2, correct_3d = 1, correct_10d = 0,
          accuracy_1d = 1, accuracy_3d = 1 / 2, accuracy_10d = 0\<rparr>
   \<and> analyze_sentiment_accuracy
        [\<lparr>row_id = Some 1, prediction_time = 0, kol_name = ''alice'', ticker = ''AAPL'',
          sector = ''Technology'', sentiment = ''positive'', confidence = 9 / 10,
          initial_price = Some 100, return_1d = Some (Fin (5 / 100)),
          return_3d = Some (Fin (5 / 100)), return_10d = None\<rparr>,
         \<lparr>row_id = Some 2, prediction_time = 1, kol_name = ''alice'', ticker = ''MSFT'',
          sector = ''Technology'', sentiment = ''positive'', confidence = 8 / 10,
          initial_price = Some 200, return_1d = Some (Fin (5 / 100)),
          return_3d = None, return_10d = None\<rparr>]
        ''positive'' = Some \<lparr>total = 2, correct_1d = 2, correct_3d = 1, correct_10d = 0,
          accuracy_1d = 1, accuracy_3d = 1 / 2, accuracy_10d = 0\<rparr>
   \<and> real (correct_count return_3d
        (counted_for_kol ''alice''
        [\<lparr>row_id = Some 1, prediction_time = 0, kol_name = ''alice'', ticker = ''AAPL'',
          sector = ''Technology'', sentiment = ''positive'', confidence = 9 / 10,
          initial_price = Some 100, return_1d = Some (Fin (5 / 100)),
          return_3d = Some (Fin (5 / 100)), return_10d = None\<rparr>,
         \<lparr>row_id = Some 2, prediction_time = 1, kol_name = ''alice'', ticker = ''MSFT'',
          sector = ''Technology'', sentiment = ''positive'', confidence = 8 / 10,
          initial_price = Some 200, return_1d = Some (Fin (5 / 100)),
          return_3d = None, return_10d = None\<rparr>])) / real (2::nat) = 1 / 2
   \<and> real (correct_count return_3d
        (counted_for_sentiment ''positive''
        [\<lparr>row_id = Some 1, prediction_time = 0, kol_name = ''alice'', ticker = ''AAPL'',
          sector = ''Technology'', sentiment = ''positive'', confidence = 9 / 10,
          initial_price = Some 100, return_1d = Some (Fin (5 / 100)),
          return_3d = Some (Fin (5 / 100)), return_10d = None\<rparr>,
         \<lparr>row_id = Some 2, prediction_time = 1, kol_name = ''alice'', ticker = ''MSFT'',
          sector = ''Technology'', sentiment = ''positive'', confidence = 8 / 10,
          initial_price = Some 200, return_1d = Some (Fin (5 / 100)),
          return_3d = None, return_10d = None\<rparr>])) / real (2::nat) = 1 / 2"
proof -
  let ?recs = "[\<lparr>row_id = Some 1, prediction_time = 0, kol_name = ''alice'', ticker = ''AAPL'',
          sector = ''Technology'', sentiment = ''positive'', confidence = 9 / 10,
          initial_price = Some 100, return_1d = Some (Fin (5 / 100)),
          return_3d = Some (Fin (5 / 100)), return_10d = None\<rparr>,
         \<lparr>row_id = Some 2, prediction_time = 1, kol_name = ''alice'', ticker = ''MSFT'',
          sector = ''Technology'', sentiment = ''positive'', confidence = 8 / 10,
          initial_price = Some 200, return_1d = Some (Fin (5 / 100)),
          return_3d = None, return_10d = None\<rparr>]"
  let ?st = "\<lparr>total = 2, correct_1d = 2, correct_3d = 1, correct_10d = 0,
          accuracy_1d = 1, accuracy_3d = 1 / 2, accuracy_10d = 0\<rparr>"
  have a: "get_kol_performance_stats ?recs ''alice'' = Some ?st"
    by (simp add: get_kol_performance_stats_def kol_stats_step_def count_record_def
        score_horizon_def is_direction_correct_def lower_def fresh_stats_def
        set_accuracies_def)
  have b: "analyze_sentiment_accuracy ?recs ''positive'' = Some ?st"
    by (simp add: analyze_sentiment_accuracy_def sentiment_stats_step_def
        sentiment_stats_init_def count_record_def score_horizon_def
        is_direction_correct_def lower_def fresh_stats_def set_accuracies_def)
  show ?thesis
    using horizon_accuracy_denominator [of ?recs "''alice''" ?st "''positive''" ?st] a b
    by simp
qed

subsection \<open>Inserting a prediction\<close>

text \<open>
  C10. When the price lookup for the prediction yields nothing, the insertion leaves
  the table as it was, raises nothing and returns \<open>None\<close> as the record id.
\<close>

theorem insert_without_price_persists_nothing:
  "get_stock_price tick (case ptime of None \<Rightarrow> now | Some t \<Rightarrow> t) = None \<Longrightarrow>
   insert_record_with_returns get_stock_price get_hist now db kol tick sect sent conf ptime
     = (db, None)"
  by (simp add: insert_record_with_returns_def Let_def)

theorem insert_without_price_persists_nothing_witness:
  "(\<lambda>t d. None :: real option) ''ZZZZ'' (case Some 7 of None \<Rightarrow> 0 | Some t \<Rightarrow> t) = None
   \<and> insert_record_with_returns (\<lambda>t d. None) (\<lambda>t d. Some [1, 2]) 0
        \<lparr>rows = [], next_id = 1\<rparr> ''bob'' ''ZZZZ'' ''Energy'' ''negative'' (1 / 2) (Some 7)
      = (\<lparr>rows = [], next_id = 1\<rparr>, None)"
  using insert_without_price_persists_nothing
    [where get_stock_price = "\<lambda>t d. None" and tick = "''ZZZZ''" and ptime = "Some 7"
       and now = 0 and get_hist = "\<lambda>t d. Some [1, 2]"
       and db = "\<lparr>rows = [], next_id = 1\<rparr>" and kol = "''bob''"
       and sect = "''Energy''" and sent = "''negative''" and conf = "1 / 2"]
  by simp

subsection \<open>Composite grade\<close>

lemma round_half_even_mono:
  assumes "x \<le> y" shows "round_half_even x \<le> round_half_even y"
proof (cases "\<lfloor>x\<rfloor> = \<lfloor>y\<rfloor>")
  case True
  then show ?thesis using assms
    by (auto simp: round_half_even_def Let_def)
next
  case False
  with assms have lt: "\<lfloor>x\<rfloor> + 1 \<le> \<lfloor>y\<rfloor>"
    using floor_mono [OF assms] by linarith
  have a: "round_half_even x \<le> \<lfloor>x\<rfloor> + 1"
    by (auto simp: round_half_even_def Let_def)
  have b: "\<lfloor>y\<rfloor> \<le> round_half_even y"
    by (auto simp: round_half_even_def Let_def)
  from a lt b show ?thesis by linarith
qed

lemma round_half_even_of_int [simp]: "round_half_even (of_int k) = k"
  by (simp add: round_half_even_def)

lemma round_half_even_numeral [simp]: "round_half_even (numeral k) = numeral k"
  using round_half_even_of_int [of "numeral k"] by simp

lemma round_half_even_nonneg: "0 \<le> x \<Longrightarrow> 0 \<le> round_half_even x"
  using round_half_even_mono [of 0 x] round_half_even_of_int [of 0] by simp

lemma fl64_on_grid: "fl64 x = sgn x * on_grid \<bar>x\<bar>"
  by (simp add: fl64_def)

lemma binade_bounds:
  assumes "0 < a"
  shows "2 powr of_int \<lfloor>Transcendental.log 2 a\<rfloor> \<le> a" and "a < 2 powr (of_int \<lfloor>Transcendental.log 2 a\<rfloor> + 1)"
  using floor_log_eq_powr_iff [of a 2 "\<lfloor>Transcendental.log 2 a\<rfloor>"] assms by simp_all

lemma scaled_bounds:
  assumes "0 < a"
  shows "2 ^ 52 \<le> a / 2 powr (of_int \<lfloor>Transcendental.log 2 a\<rfloor> - 52)"
    and "a / 2 powr (of_int \<lfloor>Transcendental.log 2 a\<rfloor> - 52) < 2 ^ 53"
proof -
  let ?k = "\<lfloor>Transcendental.log 2 a\<rfloor>"
  define r where "r = a / 2 powr of_int ?k"
  have p: "(2::real) powr (of_int ?k - 52) = 2 powr of_int ?k / 2 ^ 52"
    by (simp add: powr_diff)
  have pos: "0 < (2::real) powr of_int ?k" by simp
  have q: "a / 2 powr (of_int ?k - 52) = r * 2 ^ 52"
    unfolding p r_def by simp
  have r1: "1 \<le> r"
    unfolding r_def using binade_bounds(1) [OF assms] pos by (simp add: le_divide_eq)
  have "a < 2 powr of_int ?k * 2"
    using binade_bounds(2) [OF assms] by (simp add: powr_add)
  then have r2: "r < 2"
    unfolding r_def using pos by (simp add: divide_less_eq mult.commute)
  show "2 ^ 52 \<le> a / 2 powr (of_int ?k - 52)"
    unfolding q using r1 by simp
  show "a / 2 powr (of_int ?k - 52) < 2 ^ 53"
    unfolding q using r2 by simp
qed

lemma on_grid_nonneg: "0 \<le> a \<Longrightarrow> 0 \<le> on_grid a"
  by (simp add: on_grid_def Let_def round_half_even_nonneg)

lemma on_grid_bounds:
  assumes "0 < a"
  shows "2 powr (of_int \<lfloor>Transcendental.log 2 a\<rfloor>) \<le> on_grid a"
    and "on_grid a \<le> 2 powr (of_int \<lfloor>Transcendental.log 2 a\<rfloor> + 1)"
proof -
  let ?k = "\<lfloor>Transcendental.log 2 a\<rfloor>"
  let ?g = "(2::real) powr (of_int ?k - 52)"
  have g: "0 < ?g" by simp
  have lo: "2 ^ 52 \<le> round_half_even (a / ?g)"
    using round_half_even_mono [OF scaled_bounds(1) [OF assms]] by simp
  have hi: "round_half_even (a / ?g) \<le> 2 ^ 53"
    using round_half_even_mono [OF less_imp_le [OF scaled_bounds(2) [OF assms]]] by simp
  have e1: "(2::real) powr of_int ?k = 2 ^ 52 * ?g"
    by (simp add: powr_diff)
  have e2: "(2::real) powr (of_int ?k + 1) = 2 ^ 53 * ?g"
    by (simp add: powr_diff powr_add)
  have "2 ^ 52 * ?g \<le> of_int (round_half_even (a / ?g)) * ?g"
    using lo g by (intro mult_right_mono) (simp_all add: of_int_le_iff [symmetric] del: of_int_le_iff)
  then show "2 powr (of_int ?k) \<le> on_grid a"
    by (simp add: on_grid_def Let_def e1)
  have "of_int (round_half_even (a / ?g)) * ?g \<le> 2 ^ 53 * ?g"
    using hi g by (intro mult_right_mono) (simp_all add: of_int_le_iff [symmetric] del: of_int_le_iff)
  then show "on_grid a \<le> 2 powr (of_int ?k + 1)"
    by (simp add: on_grid_def Let_def e2)
qed

lemma on_grid_mono:
  assumes "0 < a" and "a \<le> b"
  shows "on_grid a \<le> on_grid b"
proof -
  have b: "0 < b" using assms by simp
  have k: "\<lfloor>Transcendental.log 2 a\<rfloor> \<le> \<lfloor>Transcendental.log 2 b\<rfloor>"
    using assms b by (intro floor_mono) simp
  show ?thesis
  proof (cases "\<lfloor>Transcendental.log 2 a\<rfloor> = \<lfloor>Transcendental.log 2 b\<rfloor>")
    case True
    let ?g = "(2::real) powr (of_int \<lfloor>Transcendental.log 2 b\<rfloor> - 52)"
    have "a / ?g \<le> b / ?g" using assms(2) by (simp add: divide_right_mono)
    then have "round_half_even (a / ?g) \<le> round_half_even (b / ?g)"
      by (rule round_half_even_mono)
    then have "of_int (round_half_even (a / ?g)) * ?g \<le> of_int (round_half_even (b / ?g)) * ?g"
      by (intro mult_right_mono) simp_all
    then show ?thesis by (simp add: on_grid_def Let_def True)
  next
    case False
    then have "\<lfloor>Transcendental.log 2 a\<rfloor> + 1 \<le> \<lfloor>Transcendental.log 2 b\<rfloor>" using k by simp
    then have "(of_int \<lfloor>Transcendental.log 2 a\<rfloor> + 1 :: real) \<le> of_int \<lfloor>Transcendental.log 2 b\<rfloor>"
      by (metis of_int_1 of_int_add of_int_le_iff)
    then have "(2::real) powr (of_int \<lfloor>Transcendental.log 2 a\<rfloor> + 1) \<le> 2 powr of_int \<lfloor>Transcendental.log 2 b\<rfloor>"
      by (intro powr_mono) simp_all
    then show ?thesis
      using on_grid_bounds(2) [OF assms(1)] on_grid_bounds(1) [OF b] by linarith
  qed
qed

lemma fl64_zero [simp]: "fl64 0 = 0"
  by (simp add: fl64_on_grid)

lemma fl64_mono:
  assumes "x \<le> y" shows "fl64 x \<le> fl64 y"
proof -
  consider "0 < x" | "x \<le> 0" "0 \<le> y" | "y < 0" by linarith
  then show ?thesis
  proof cases
    case 1
    then show ?thesis using assms on_grid_mono [of x y] by (simp add: fl64_on_grid)
  next
    case 2
    have "fl64 x \<le> 0"
      using 2(1) on_grid_nonneg [of "\<bar>x\<bar>"]
      by (cases "x = 0") (simp_all add: fl64_on_grid)
    moreover have "0 \<le> fl64 y"
      using 2(2) on_grid_nonneg [of "\<bar>y\<bar>"]
      by (cases "y = 0") (simp_all add: fl64_on_grid)
    ultimately show ?thesis by linarith
  next
    case 3
    then have "on_grid \<bar>y\<bar> \<le> on_grid \<bar>x\<bar>"
      using assms by (intro on_grid_mono) simp_all
    then show ?thesis using 3 assms by (simp add: fl64_on_grid)
  qed
qed

lemma fl64_nonneg: "0 \<le> x \<Longrightarrow> 0 \<le> fl64 x"
  using fl64_mono [of 0 x] by simp

text \<open>Evaluation: a magnitude that \<open>2 ^ k\<close> scales into the 53-bit range is rounded
  on the grid of step \<open>1 / 2 ^ k\<close>.\<close>

lemma fl64_scaled:
  assumes "2 ^ 52 \<le> \<bar>x\<bar> * 2 ^ k" and "\<bar>x\<bar> * 2 ^ k < 2 ^ 53"
  shows "fl64 x = sgn x * of_int (round_half_even (\<bar>x\<bar> * 2 ^ k)) / 2 ^ k"
proof -
  let ?a = "\<bar>x\<bar>"
  have pos: "0 < ?a" using assms(1) by (cases "x = 0") simp_all
  have pk: "(2::real) powr (of_int (52 - int k)) = 2 ^ 52 / 2 ^ k"
    by (simp add: powr_diff powr_realpow)
  have pk1: "(2::real) powr (of_int (52 - int k) + 1) = 2 ^ 53 / 2 ^ k"
    by (simp add: powr_diff powr_add powr_realpow)
  have "2 powr (of_int (52 - int k)) \<le> ?a \<and> ?a < 2 powr (of_int (52 - int k) + 1)"
    using assms unfolding pk pk1 by (simp add: divide_le_eq less_divide_eq)
  then have fl: "\<lfloor>Transcendental.log 2 ?a\<rfloor> = 52 - int k"
    using floor_log_eq_powr_iff [of ?a 2 "52 - int k"] pos by simp
  have g: "(2::real) powr (of_int \<lfloor>Transcendental.log 2 ?a\<rfloor> - 52) = 1 / 2 ^ k"
    by (simp add: fl powr_minus powr_realpow inverse_eq_divide)
  show ?thesis
    unfolding fl64_on_grid on_grid_def Let_def g by simp
qed

lemma py_round2_mono: "x \<le> y \<Longrightarrow> py_round2 x \<le> py_round2 y"
  using round_half_even_mono [of "x * 100" "y * 100"]
  by (simp add: py_round2_def divide_right_mono)

lemma py_round2_close: "\<bar>py_round2 x - x\<bar> \<le> 1 / 200"
proof -
  have "\<bar>of_int (round_half_even (x * 100)) - x * 100\<bar> \<le> 1 / 2"
    by (auto simp: round_half_even_def Let_def)
  then show ?thesis by (simp add: py_round2_def field_simps)
qed

lemma calculate_kol_grade_value:
  "sample_norm \<noteq> 0 \<Longrightarrow>
   calculate_kol_grade a s n wa ws wn sample_norm =
     Inr (fl64 (py_round2 (fl64 (100 *
       fl64 (fl64 (fl64 (wa * a) + fl64 (ws * min (max (fl64 (s / 2)) 0) 1))
             + fl64 (wn * min (fl64 (of_int n / of_int sample_norm)) 1))))))"
  by (simp add: calculate_kol_grade_def Let_def)

lemma sharpe_score_mono:
  "s \<le> s' \<Longrightarrow> min (max (fl64 (s / 2)) 0) 1 \<le> min (max (fl64 (s' / 2)) 0) 1"
  using fl64_mono [of "s / 2" "s' / 2"] by (simp add: min_def max_def)

text \<open>The rounded grade is non-decreasing in each of its three products.\<close>

lemma grade_of_products_mono:
  assumes "p \<le> p'" and "q \<le> q'"
  shows "fl64 (py_round2 (fl64 (100 * fl64 (fl64 (fl64 p + fl64 q) + r))))
       \<le> fl64 (py_round2 (fl64 (100 * fl64 (fl64 (fl64 p' + fl64 q') + r))))"
proof -
  have "fl64 p + fl64 q \<le> fl64 p' + fl64 q'"
    using fl64_mono [OF assms(1)] fl64_mono [OF assms(2)] by linarith
  then have "fl64 (fl64 p + fl64 q) + r \<le> fl64 (fl64 p' + fl64 q') + r"
    using fl64_mono by simp
  then have "100 * fl64 (fl64 (fl64 p + fl64 q) + r)
           \<le> 100 * fl64 (fl64 (fl64 p' + fl64 q') + r)"
    using fl64_mono by simp
  then show ?thesis
    by (intro fl64_mono py_round2_mono)
qed

text \<open>The roundings that the evaluations below pass through.\<close>

lemma fl64_value_1: "fl64 (1 / 2) = 1 / 2"
  by (subst fl64_scaled [where k = 53]) (simp_all add: round_half_even_def)

lemma fl64_value_2: "fl64 (3 / 10) = 5404319552844595 / 18014398509481984"
  by (subst fl64_scaled [where k = 54]) (simp_all add: round_half_even_def)

lemma fl64_value_3: "fl64 (1 / 5) = 3602879701896397 / 18014398509481984"
  by (subst fl64_scaled [where k = 55]) (simp_all add: round_half_even_def)

lemma fl64_value_4: "fl64 1 = 1"
  by (subst fl64_scaled [where k = 52]) (simp_all add: round_half_even_def)

lemma fl64_value_5: "fl64 (5404319552844595 / 18014398509481984) = 5404319552844595 / 18014398509481984"
  by (subst fl64_scaled [where k = 54]) (simp_all add: round_half_even_def)

lemma fl64_value_6: "fl64 (14411518807585587 / 18014398509481984) = 3602879701896397 / 4503599627370496"
  by (subst fl64_scaled [where k = 53]) (simp_all add: round_half_even_def)

lemma fl64_value_7: "fl64 (3602879701896397 / 18014398509481984) = 3602879701896397 / 18014398509481984"
  by (subst fl64_scaled [where k = 55]) (simp_all add: round_half_even_def)

lemma fl64_value_8: "fl64 (18014398509481985 / 18014398509481984) = 1"
  by (subst fl64_scaled [where k = 52]) (simp_all add: round_half_even_def)

lemma fl64_value_9: "fl64 100 = 100"
  by (subst fl64_scaled [where k = 46]) (simp_all add: round_half_even_def)

lemma fl64_value_10: "fl64 (1 / 32) = 1 / 32"
  by (subst fl64_scaled [where k = 57]) (simp_all add: round_half_even_def)

lemma fl64_value_11: "fl64 (12980742146337070512478121581609 / 324518553658426726783156020576256) = 1441151880758559 / 36028797018963968"
  by (subst fl64_scaled [where k = 57]) (simp_all add: round_half_even_def)

lemma fl64_value_12: "fl64 (2567051787601183 / 36028797018963968) = 2567051787601183 / 36028797018963968"
  by (subst fl64_scaled [where k = 56]) (simp_all add: round_half_even_def)

lemma fl64_value_13: "fl64 (64176294690029575 / 9007199254740992) = 8022036836253697 / 1125899906842624"
  by (subst fl64_scaled [where k = 50]) (simp_all add: round_half_even_def)

lemma fl64_value_14: "fl64 (713 / 100) = 8027666335787909 / 1125899906842624"
  by (subst fl64_scaled [where k = 50]) (simp_all add: round_half_even_def)

lemma fl64_value_15: "fl64 (8 / 25) = 5764607523034235 / 18014398509481984"
  by (subst fl64_scaled [where k = 54]) (simp_all add: round_half_even_def)

lemma fl64_value_16: "fl64 (20769187434139312099389054151295 / 324518553658426726783156020576256) = 1152921504606847 / 18014398509481984"
  by (subst fl64_scaled [where k = 56]) (simp_all add: round_half_even_def)

lemma fl64_value_17: "fl64 (1715871458028159 / 18014398509481984) = 1715871458028159 / 18014398509481984"
  by (subst fl64_scaled [where k = 56]) (simp_all add: round_half_even_def)

lemma fl64_value_18: "fl64 (42896786450703975 / 4503599627370496) = 5362098306337997 / 562949953421312"
  by (subst fl64_scaled [where k = 49]) (simp_all add: round_half_even_def)

lemma fl64_value_19: "fl64 (953 / 100) = 5364913056105103 / 562949953421312"
  by (subst fl64_scaled [where k = 49]) (simp_all add: round_half_even_def)

lemma fl64_value_20: "fl64 (3 / 4) = 3 / 4"
  by (subst fl64_scaled [where k = 53]) (simp_all add: round_half_even_def)

lemma fl64_value_21: "fl64 (1 / 4) = 1 / 4"
  by (subst fl64_scaled [where k = 54]) (simp_all add: round_half_even_def)

lemma fl64_value_22: "fl64 (- (3 / 4)) = - (3 / 4)"
  by (subst fl64_scaled [where k = 53]) (simp_all add: round_half_even_def)

lemma fl64_value_23: "fl64 25 = 25"
  by (subst fl64_scaled [where k = 48]) (simp_all add: round_half_even_def)

lemma fl64_value_24: "fl64 (1 / 8) = 1 / 8"
  by (subst fl64_scaled [where k = 55]) (simp_all add: round_half_even_def)

lemma fl64_value_25: "fl64 (3 / 8) = 3 / 8"
  by (subst fl64_scaled [where k = 54]) (simp_all add: round_half_even_def)

lemma fl64_value_26: "fl64 (75 / 2) = 75 / 2"
  by (subst fl64_scaled [where k = 47]) (simp_all add: round_half_even_def)

lemma fl64_value_27: "fl64 (5 / 8) = 5 / 8"
  by (subst fl64_scaled [where k = 53]) (simp_all add: round_half_even_def)

lemma fl64_value_28: "fl64 (125 / 2) = 125 / 2"
  by (subst fl64_scaled [where k = 47]) (simp_all add: round_half_even_def)

lemma fl64_value_29: "fl64 (3 / 2) = 3 / 2"
  by (subst fl64_scaled [where k = 52]) (simp_all add: round_half_even_def)

lemma fl64_value_30: "fl64 50 = 50"
  by (subst fl64_scaled [where k = 47]) (simp_all add: round_half_even_def)

lemmas fl64_values =
  fl64_value_1 fl64_value_2 fl64_value_3 fl64_value_4 fl64_value_5
  fl64_value_6 fl64_value_7 fl64_value_8 fl64_value_9 fl64_value_10
  fl64_value_11 fl64_value_12 fl64_value_13 fl64_value_14 fl64_value_15
  fl64_value_16 fl64_value_17 fl64_value_18 fl64_value_19 fl64_value_20
  fl64_value_21 fl64_value_22 fl64_value_23 fl64_value_24 fl64_value_25
  fl64_value_26 fl64_value_27 fl64_value_28 fl64_value_29 fl64_value_30

text \<open>At the two inputs where the exact sum is a tie, 7.125 and 9.525, the doubles
  are not: the grade is the double nearest 7.13, and the double nearest 9.53.\<close>

lemma calculate_kol_grade_at_ties:
  "calculate_kol_grade_default (1 / 16) 0 10 = Inr (fl64 (713 / 100))"
  "calculate_kol_grade_default (1 / 16) 0 16 = Inr (fl64 (953 / 100))"
  by (simp_all add: calculate_kol_grade_default_def calculate_kol_grade_def fl64_values
      py_round2_def round_half_even_def)

text \<open>
  C4. The claim has the grade non-decreasing in accuracy and in sharpe for any fixed
  other inputs. The weights are inputs too and are not checked: with the weights
  1.5, -0.75 and 0.25 (which sum to 1) the grade falls from 100 to 25 as sharpe rises
  from 0 to 2.
\<close>

theorem calculate_kol_grade_monotone_counterexample:
  "calculate_kol_grade (1 / 2) 0 50 (3 / 2) (- (3 / 4)) (1 / 4) 50 = Inr 100
   \<and> calculate_kol_grade (1 / 2) 2 50 (3 / 2) (- (3 / 4)) (1 / 4) 50 = Inr 25"
  by (simp add: calculate_kol_grade_def fl64_values py_round2_def)

text \<open>
  C4 as amended. For a nonzero sample norm the grade is
  \<open>100 \<times> (w_acc\<cdot>accuracy + w_sharpe\<cdot>clamp(sharpe/2, 0, 1) + w_sample\<cdot>min(sample_num/sample_norm, 1))\<close>
  evaluated in double arithmetic and rounded to two decimal places (to a multiple of
  0.01 within 0.005 of it, taken as a double). It is non-decreasing in accuracy when
  \<open>w_acc\<close> is not negative and non-decreasing in sharpe when \<open>w_sharpe\<close> is not negative,
  the other inputs fixed; with the default weights both hold for every input, and the
  grade of accuracy 1, sharpe 2 and 50 samples is exactly 100.
\<close>

theorem calculate_kol_grade_monotone:
  assumes "sample_norm \<noteq> 0"
  shows
    "calculate_kol_grade a s n wa ws wn sample_norm =
       Inr (fl64 (py_round2 (fl64 (100 *
         fl64 (fl64 (fl64 (wa * a) + fl64 (ws * min (max (fl64 (s / 2)) 0) 1))
               + fl64 (wn * min (fl64 (of_int n / of_int sample_norm)) 1))))))
     \<and> (\<exists>k. py_round2 x = of_int k / 100) \<and> \<bar>py_round2 x - x\<bar> \<le> 1 / 200
     \<and> (0 \<le> wa \<and> a \<le> a' \<longrightarrow>
          (\<exists>g g'. calculate_kol_grade a s n wa ws wn sample_norm = Inr g
                 \<and> calculate_kol_grade a' s n wa ws wn sample_norm = Inr g' \<and> g \<le> g'))
     \<and> (0 \<le> ws \<and> s \<le> s' \<longrightarrow>
          (\<exists>g g'. calculate_kol_grade a s n wa ws wn sample_norm = Inr g
                 \<and> calculate_kol_grade a s' n wa ws wn sample_norm = Inr g' \<and> g \<le> g'))
     \<and> (a \<le> a' \<longrightarrow>
          (\<exists>g g'. calculate_kol_grade_default a s n = Inr g
                 \<and> calculate_kol_grade_default a' s n = Inr g' \<and> g \<le> g'))
     \<and> (s \<le> s' \<longrightarrow>
          (\<exists>g g'. calculate_kol_grade_default a s n = Inr g
                 \<and> calculate_kol_grade_default a s' n = Inr g' \<and> g \<le> g'))
     \<and> calculate_kol_grade_default 1 2 50 = Inr 100"
proof -
  have acc: "\<exists>g g'. calculate_kol_grade b t n u v w m = Inr g
                 \<and> calculate_kol_grade b' t n u v w m = Inr g' \<and> g \<le> g'"
    if "m \<noteq> 0" "0 \<le> u" "b \<le> b'" for b b' t u v w m
  proof -
    have "u * b \<le> u * b'" using that by (simp add: mult_left_mono)
    then show ?thesis
      using that(1) by (simp add: calculate_kol_grade_value grade_of_products_mono)
  qed
  have shp: "\<exists>g g'. calculate_kol_grade b t n u v w m = Inr g
                 \<and> calculate_kol_grade b t' n u v w m = Inr g' \<and> g \<le> g'"
    if "m \<noteq> 0" "0 \<le> v" "t \<le> t'" for b t t' u v w m
  proof -
    have "v * min (max (fl64 (t / 2)) 0) 1 \<le> v * min (max (fl64 (t' / 2)) 0) 1"
      using that sharpe_score_mono [of t t'] by (simp add: mult_left_mono)
    then show ?thesis
      using that(1) by (simp add: calculate_kol_grade_value grade_of_products_mono)
  qed
  have w5: "0 \<le> fl64 (5 / 10)" and w3: "0 \<le> fl64 (3 / 10)"
    by (simp_all add: fl64_nonneg)
  have c1: "calculate_kol_grade a s n wa ws wn sample_norm =
       Inr (fl64 (py_round2 (fl64 (100 *
         fl64 (fl64 (fl64 (wa * a) + fl64 (ws * min (max (fl64 (s / 2)) 0) 1))
               + fl64 (wn * min (fl64 (of_int n / of_int sample_norm)) 1))))))"
    using assms by (rule calculate_kol_grade_value)
  have c2: "\<exists>k. py_round2 x = of_int k / 100"
    by (auto simp: py_round2_def)
  have c3: "\<bar>py_round2 x - x\<bar> \<le> 1 / 200" by (rule py_round2_close)
  have c4: "0 \<le> wa \<and> a \<le> a' \<longrightarrow>
          (\<exists>g g'. calculate_kol_grade a s n wa ws wn sample_norm = Inr g
                 \<and> calculate_kol_grade a' s n wa ws wn sample_norm = Inr g' \<and> g \<le> g')"
    using acc [OF assms] by blast
  have c5: "0 \<le> ws \<and> s \<le> s' \<longrightarrow>
          (\<exists>g g'. calculate_kol_grade a s n wa ws wn sample_norm = Inr g
                 \<and> calculate_kol_grade a s' n wa ws wn sample_norm = Inr g' \<and> g \<le> g')"
    using shp [OF assms] by blast
  have c6: "a \<le> a' \<longrightarrow>
          (\<exists>g g'. calculate_kol_grade_default a s n = Inr g
                 \<and> calculate_kol_grade_default a' s n = Inr g' \<and> g \<le> g')"
    unfolding calculate_kol_grade_default_def using acc [of 50 "fl64 (5 / 10)" a a'] w5
    by simp
  have c7: "s \<le> s' \<longrightarrow>
          (\<exists>g g'. calculate_kol_grade_default a s n = Inr g
                 \<and> calculate_kol_grade_default a s' n = Inr g' \<and> g \<le> g')"
    unfolding calculate_kol_grade_default_def using shp [of 50 "fl64 (3 / 10)" s s'] w3
    by simp
  have c8: "calculate_kol_grade_default 1 2 50 = Inr 100"
    by (simp add: calculate_kol_grade_default_def calculate_kol_grade_def fl64_values
        py_round2_def)
  from c1 c2 c3 c4 c5 c6 c7 c8 show ?thesis by blast
qed

theorem calculate_kol_grade_monotone_witness:
  "(50::int) \<noteq> 0 \<and> (0::real) \<le> 1 / 2 \<and> (0::real) \<le> 1 / 4 \<and> (1 / 4 :: real) \<le> 3 / 4
   \<and> (1::real) \<le> 3
   \<and> calculate_kol_grade (1 / 4) 1 25 (1 / 2) (1 / 4) (1 / 4) 50 = Inr (75 / 2)
   \<and> calculate_kol_grade (3 / 4) 1 25 (1 / 2) (1 / 4) (1 / 4) 50 = Inr (125 / 2)
   \<and> calculate_kol_grade (1 / 4) 3 25 (1 / 2) (1 / 4) (1 / 4) 50 = Inr 50"
  using calculate_kol_grade_monotone [where sample_norm = 50 and a = "1 / 4" and a' = "3 / 4"
      and s = 1 and s' = 3 and n = 25 and wa = "1 / 2" and ws = "1 / 4" and wn = "1 / 4"
      and x = "75 / 2"]
  by (simp add: calculate_kol_grade_def fl64_values py_round2_def round_half_even_def)

subsection \<open>Period metrics\<close>

lemma calculate_period_metrics_empty:
  "calculate_period_metrics [] =
     \<lparr>mean_return = 0, volatility = Fin 0, sharpe_ratio = 0, information_ratio = 0\<rparr>"
  by (simp add: calculate_period_metrics_def)

lemma np_std_two_or_more:
  assumes n: "2 \<le> length xs"
  shows "np_std xs 1 =
     Fin (sqrt (sum_list (map (\<lambda>x. (x - np_mean xs)\<^sup>2) xs) / (real (length xs) - 1)))"
proof -
  let ?ss = "sum_list (map (\<lambda>x. (x - np_mean xs)\<^sup>2) xs)"
  have nn: "0 \<le> ?ss"
    by (rule sum_list_nonneg) auto
  have d: "real_of_int (max (int (length xs) - int 1) 0) = real (length xs) - 1"
    using n by simp
  have k: "real (length xs) - 1 \<noteq> 0" using n by simp
  have "0 < real (length xs) - 1" using n by simp
  then have q: "\<not> ?ss / (real (length xs) - 1) < 0"
    using nn by (simp add: not_less)
  show ?thesis
    unfolding np_std_def Let_def d np_div_def
    using k q by (simp del: of_nat_diff)
qed

lemma np_std_single: "np_std [x] 1 = NaN"
  by (simp add: np_std_def np_mean_def np_div_def)

text \<open>
  C2. An empty list gives four zeros, and from two observations on the volatility is
  the sample standard deviation with the N-1 divisor (the lemmas around this
  one). A single observation is not caught by the empty-list test: the sum of squared
  deviations 0 is divided by N-1 = 0, so the volatility is \<open>nan\<close>, not 0, while the
  two ratios fall back to 0 because \<open>nan > 0\<close> is false.
\<close>

theorem single_observation_volatility:
  "calculate_period_metrics [5 / 100] =
     \<lparr>mean_return = 5 / 100, volatility = NaN, sharpe_ratio = 0, information_ratio = 0\<rparr>"
  by (simp add: calculate_period_metrics_def np_std_def np_mean_def np_div_def)

lemma volatility_two_or_more:
  assumes "2 \<le> length xs"
  shows "volatility (calculate_period_metrics xs) =
     Fin (sqrt (sum_list (map (\<lambda>x. (x - np_mean xs)\<^sup>2) xs) / (real (length xs) - 1)))"
proof -
  from assms have "xs \<noteq> []" by auto
  then have "volatility (calculate_period_metrics xs) = np_std xs 1"
    by (simp add: calculate_period_metrics_def Let_def)
  then show ?thesis using np_std_two_or_more [OF assms] by simp
qed

lemma volatility_single: "volatility (calculate_period_metrics [x]) = NaN"
proof -
  have "volatility (calculate_period_metrics [x]) = np_std [x] 1"
    by (simp add: calculate_period_metrics_def Let_def)
  then show ?thesis by (simp only: np_std_single)
qed

subsection \<open>Cache purge\<close>

lemma remove_file_absent:
  "name \<notin> fst ` set files \<Longrightarrow> remove_file name files = files"
  unfolding remove_file_def by (rule filter_True) force

lemma clear_cache_loop_eq:
  "distinct (map fst (pre @ listing)) \<Longrightarrow>
   clear_cache_loop (now - of_int days * 24 * 3600) listing (pre @ listing, k) =
     (pre @ filter (\<lambda>e. \<not> older_than now days e) listing,
      k + length (filter (older_than now days) listing))"
proof (induction listing arbitrary: pre k)
  case Nil
  show ?case by simp
next
  case (Cons e es)
  obtain n f where e: "e = (n, f)" by (cases e)
  have d: "distinct (map fst ((pre @ [e]) @ es))" using Cons.prems by simp
  show ?case
  proof (cases "older_than now days e")
    case True
    have "n \<notin> fst ` set (pre @ es)" using Cons.prems e by auto
    then have "remove_file n (pre @ es) = pre @ es"
      by (rule remove_file_absent)
    then have r: "remove_file n (pre @ (n, f) # es) = pre @ es"
      by (simp add: remove_file_def)
    have d': "distinct (map fst (pre @ es))" using Cons.prems by simp
    from True have c: "endswith n ''.pkl'' \<and> mtime f < now - of_int days * 24 * 3600"
      by (auto simp: older_than_def e)
    show ?thesis
      using True c Cons.IH [OF d', of "Suc k"] by (simp add: e r del: filter_append)
  next
    case False
    then have c: "\<not> (endswith n ''.pkl'' \<and> mtime f < now - of_int days * 24 * 3600)"
      by (auto simp: older_than_def e)
    show ?thesis
      using False c Cons.IH [OF d, of k] by (auto simp add: e)
  qed
qed

text \<open>
  C8. The claim has the purge return the number of entries it removed. The function
  prints that number and returns nothing: with one cache entry ten days old and a
  threshold of seven days the entry is removed, 1 is printed, and the call's value is
  \<open>None\<close>.
\<close>

theorem clear_cache_returns_count_counterexample:
  "clear_cache (Some [(''AAPL_2024-01-01_2024-01-31.pkl'', \<lparr>mtime = 0, content = Plain [1, 2]\<rparr>)])
     (10 * 24 * 3600) 7 = (Some [], Some 1, None)"
  by (simp add: clear_cache_def endswith_def remove_file_def)

text \<open>
  C8 as amended. On an existing cache directory (each file name occurring once) the
  purge removes exactly the \<open>.pkl\<close> entries whose age exceeds the threshold, leaves
  every other file in place, prints the number of entries removed and returns
  \<open>None\<close>; on a missing directory it does nothing.
\<close>

theorem clear_cache_removes_old_entries:
  "distinct (map fst files) \<Longrightarrow>
   clear_cache (Some files) now days =
     (Some (filter (\<lambda>e. \<not> older_than now days e) files),
      Some (length (filter (older_than now days) files)),
      None)
   \<and> clear_cache None now days = (None, None, None)"
  using clear_cache_loop_eq [of "[]" files now days 0]
  by (simp add: clear_cache_def)

theorem clear_cache_removes_old_entries_witness:
  "distinct (map fst
     [(''AAPL_2024-01-01_2024-01-31.pkl'', \<lparr>mtime = 0, content = Plain [1, 2]\<rparr>),
      (''notes.txt'', \<lparr>mtime = 0, content = Plain []\<rparr>),
      (''MSFT_2024-01-01_2024-01-31.pkl'', \<lparr>mtime = 5 * 24 * 3600, content = Plain [3]\<rparr>)])
   \<and> clear_cache (Some
     [(''AAPL_2024-01-01_2024-01-31.pkl'', \<lparr>mtime = 0, content = Plain [1, 2]\<rparr>),
      (''notes.txt'', \<lparr>mtime = 0, content = Plain []\<rparr>),
      (''MSFT_2024-01-01_2024-01-31.pkl'', \<lparr>mtime = 5 * 24 * 3600, content = Plain [3]\<rparr>)])
     (10 * 24 * 3600) 7 =
     (Some [(''notes.txt'', \<lparr>mtime = 0, content = Plain []\<rparr>),
            (''MSFT_2024-01-01_2024-01-31.pkl'', \<lparr>mtime = 5 * 24 * 3600, content = Plain [3]\<rparr>)],
      Some 1, None)"
  using clear_cache_removes_old_entries [of
     "[(''AAPL_2024-01-01_2024-01-31.pkl'', \<lparr>mtime = 0, content = Plain [1, 2]\<rparr>),
      (''notes.txt'', \<lparr>mtime = 0, content = Plain []\<rparr>),
      (''MSFT_2024-01-01_2024-01-31.pkl'', \<lparr>mtime = 5 * 24 * 3600, content = Plain [3]\<rparr>)]"
     "10 * 24 * 3600" 7]
  by (simp add: older_than_def endswith_def)

subsection \<open>Fetching one ticker\<close>

lemma downloads_append: "downloads (xs @ ys) = downloads xs @ downloads ys"
  by (simp add: downloads_def)

lemma downloads_simps:
  "downloads [] = []"
  "downloads (Download a # evs) = a # downloads evs"
  "downloads (SleepUniform lo hi # evs) = downloads evs"
  "downloads (SleepBackoff n # evs) = downloads evs"
  "downloads (Sleep d # evs) = downloads evs"
  by (simp_all add: downloads_def)

lemma attempt_loop_all_empty:
  assumes "\<forall>k\<ge>calls w. \<exists>d. up k (One t) = Inr d \<and> df_empty d"
  shows "\<exists>w'. attempt_loop up h now t s e max_retries attempt w = (None, w')
           \<and> calls w' = calls w + nat (max_retries - int attempt)
           \<and> cache w' = cache w
           \<and> downloads (log w') =
               downloads (log w) @ replicate (nat (max_retries - int attempt)) (One t)"
  using assms
proof (induction up h now t s e max_retries attempt w rule: attempt_loop.induct)
  case (1 up h now tick s e max_retries attempt w)
  show ?case
  proof (cases "int attempt < max_retries")
    case False
    then show ?thesis by (simp add: attempt_loop.simps [of _ _ _ _ _ _ max_retries attempt])
  next
    case True
    let ?w1 = "if attempt > 0 then random_delay h w else w"
    have c1: "calls ?w1 = calls w" by (simp add: random_delay_def sleep_def)
    from "1.prems" obtain d where d: "up (calls w) (One tick) = Inr d" "df_empty d"
      by auto
    let ?w2 = "?w1\<lparr>calls := calls ?w1 + 1, log := log ?w1 @ [Download (One tick)]\<rparr>"
    have dl: "download up (One tick) ?w1 = (Inr d, ?w2)"
      using d c1 by (simp add: download_def)
    have pre: "\<forall>k\<ge>calls ?w2. \<exists>d. up k (One tick) = Inr d \<and> df_empty d"
      using "1.prems" c1 by simp
    have IH: "\<exists>w'. attempt_loop up h now tick s e max_retries (attempt + 1) ?w2 = (None, w')
           \<and> calls w' = calls ?w2 + nat (max_retries - int (attempt + 1))
           \<and> cache w' = cache ?w2
           \<and> downloads (log w') =
               downloads (log ?w2) @ replicate (nat (max_retries - int (attempt + 1))) (One tick)"
      using "1.IH"(3) [OF _ dl [symmetric] refl _ pre] True d(2) by simp
    then obtain w' where w':
      "attempt_loop up h now tick s e max_retries (attempt + 1) ?w2 = (None, w')"
      "calls w' = calls ?w2 + nat (max_retries - int (attempt + 1))"
      "cache w' = cache ?w2"
      "downloads (log w') =
         downloads (log ?w2) @ replicate (nat (max_retries - int (attempt + 1))) (One tick)"
      by blast
    have step: "attempt_loop up h now tick s e max_retries attempt w = (None, w')"
      using True dl d(2) w'(1)
      by (subst attempt_loop.simps) simp
    have n: "nat (max_retries - int attempt) = Suc (nat (max_retries - int (attempt + 1)))"
      using True by simp
    have dlog: "downloads (log ?w2) = downloads (log w) @ [One tick]"
      by (simp add: downloads_append downloads_simps random_delay_def sleep_def)
    have "calls w' = calls w + nat (max_retries - int attempt)"
      using w'(2) c1 n by simp
    moreover have "cache w' = cache w"
      using w'(3) by (simp add: random_delay_def sleep_def)
    moreover have "downloads (log w') =
        downloads (log w) @ replicate (nat (max_retries - int attempt)) (One tick)"
      unfolding w'(4) dlog n by (simp add: replicate_app_Cons_same)
    ultimately show ?thesis using step by blast
  qed
qed

lemma log_save_to_cache [simp]: "log (save_to_cache now t s e d w) = log w"
  by (simp add: save_to_cache_def)

lemma log_sleep [simp]: "log (sleep ev w) = log w @ [ev]"
  by (simp add: sleep_def)

lemma log_random_delay [simp]:
  "log (random_delay h w) = log w @ [SleepUniform (delay_min h) (delay_max h)]"
  by (simp add: random_delay_def)

lemma cache_sleep [simp]: "cache (sleep ev w) = cache w"
  by (simp add: sleep_def)

lemma cache_random_delay [simp]: "cache (random_delay h w) = cache w"
  by (simp add: random_delay_def)

lemma download_world:
  "snd (download up a w) = w\<lparr>calls := calls w + 1, log := log w @ [Download a]\<rparr>"
  by (simp add: download_def)

text \<open>The ways out of the retry loop: with nothing, or with a non-empty frame that has
  just been written to the cache; in between only delays, upstream calls and sleeps
  act on the state.\<close>

lemma attempt_loop_result:
  assumes "P w"
    and "\<And>v. P v \<Longrightarrow> P (random_delay h v)"
    and "\<And>v. P v \<Longrightarrow> P (snd (download up (One t) v))"
    and "\<And>v ev. P v \<Longrightarrow> P (sleep ev v)"
    and "\<And>v. P v \<Longrightarrow> Q (None, v)"
    and "\<And>v d. P v \<Longrightarrow> \<not> df_empty d \<Longrightarrow> Q (Some d, save_to_cache now t s e d v)"
  shows "Q (attempt_loop up h now t s e max_retries attempt w)"
  using assms
proof (induction up h now t s e max_retries attempt w rule: attempt_loop.induct)
  case (1 up h now tick s e max_retries attempt w)
  note rd = "1.prems"(2) and dw = "1.prems"(3) and sl = "1.prems"(4)
    and qn = "1.prems"(5) and qs = "1.prems"(6)
  show ?case
  proof (cases "int attempt < max_retries")
    case False
    then show ?thesis using qn [OF "1.prems"(1)] by (simp add: attempt_loop.simps)
  next
    case True
    let ?w1 = "if attempt > 0 then random_delay h w else w"
    have p1: "P ?w1" using "1.prems"(1) rd by simp
    obtain r w2 where dl: "download up (One tick) ?w1 = (r, w2)"
      by (cases "download up (One tick) ?w1")
    have p2: "P w2" using dw [OF p1] dl by simp
    show ?thesis
    proof (cases r)
      case (Inr d)
      show ?thesis
      proof (cases "df_empty d")
        case False
        have "attempt_loop up h now tick s e max_retries attempt w =
                (Some d, save_to_cache now tick s e d w2)"
          using True dl Inr False
          by (subst attempt_loop.simps) simp
        then show ?thesis using qs [OF p2 False] by simp
      next
        case e: True
        have st: "attempt_loop up h now tick s e max_retries attempt w =
                attempt_loop up h now tick s e max_retries (attempt + 1) w2"
          using True dl Inr e
          by (subst attempt_loop.simps) simp
        have "Q (attempt_loop up h now tick s e max_retries (attempt + 1) w2)"
          using "1.IH"(3) [OF _ dl [symmetric] Inr _ p2 rd dw sl qn qs] True e by simp
        then show ?thesis by (simp add: st)
      qed
    next
      case (Inl err)
      show ?thesis
      proof (cases err)
        case RateLimited
        have st: "attempt_loop up h now tick s e max_retries attempt w =
                attempt_loop up h now tick s e max_retries (attempt + 1)
                  (sleep (SleepBackoff attempt) w2)"
          using True dl Inl RateLimited
          by (subst attempt_loop.simps) simp
        have "Q (attempt_loop up h now tick s e max_retries (attempt + 1)
                  (sleep (SleepBackoff attempt) w2))"
          using "1.IH"(1) [OF _ dl [symmetric] Inl RateLimited sl [OF p2] rd dw sl qn qs] True
          by simp
        then show ?thesis by (simp add: st)
      next
        case OtherFailure
        show ?thesis
        proof (cases "int attempt < max_retries - 1")
          case False
          have "attempt_loop up h now tick s e max_retries attempt w = (None, w2)"
            using True dl Inl OtherFailure False
            by (subst attempt_loop.simps) simp
          then show ?thesis using qn [OF p2] by simp
        next
          case more: True
          have st: "attempt_loop up h now tick s e max_retries attempt w =
                attempt_loop up h now tick s e max_retries (attempt + 1) (sleep (Sleep 1) w2)"
            using True dl Inl OtherFailure more
            by (subst attempt_loop.simps) simp
          have "Q (attempt_loop up h now tick s e max_retries (attempt + 1)
                  (sleep (Sleep 1) w2))"
            using "1.IH"(2) [OF _ dl [symmetric] Inl OtherFailure _ sl [OF p2] rd dw sl qn qs]
              True more
            by simp
          then show ?thesis by (simp add: st)
        qed
      qed
    qed
  qed
qed

text \<open>Whatever the four effects of the retry loop preserve holds after the loop.\<close>

lemma attempt_loop_preserves:
  assumes "P w"
    and "\<And>v. P v \<Longrightarrow> P (random_delay h v)"
    and "\<And>v. P v \<Longrightarrow> P (snd (download up (One t) v))"
    and "\<And>v ev. P v \<Longrightarrow> P (sleep ev v)"
    and "\<And>v d. P v \<Longrightarrow> P (save_to_cache now t s e d v)"
  shows "P (snd (attempt_loop up h now t s e max_retries attempt w))"
proof (rule attempt_loop_result [where P = P and Q = "\<lambda>rv. P (snd rv)"])
  show "P w" by (rule assms(1))
qed (simp_all add: assms)

lemma attempt_loop_extends:
  "\<exists>ext. downloads (log (snd (attempt_loop up h now t s e max_retries attempt w))) =
          downloads (log w) @ ext"
  by (rule attempt_loop_preserves)
     (auto simp: download_world downloads_append downloads_simps)




text \<open>An attempt that is still within the limit starts with an upstream call.\<close>

lemma attempt_loop_first_download:
  assumes "int attempt < max_retries"
  shows "\<exists>rest. downloads (log (snd (attempt_loop up h now t s e max_retries attempt w))) =
           downloads (log w) @ One t # rest"
proof -
  let ?w1 = "if attempt > 0 then random_delay h w else w"
  obtain r w2 where dl: "download up (One t) ?w1 = (r, w2)"
    by (cases "download up (One t) ?w1")
  have w2: "w2 = ?w1\<lparr>calls := calls ?w1 + 1, log := log ?w1 @ [Download (One t)]\<rparr>"
    using dl download_world [of up "One t" ?w1] by simp
  have l2: "downloads (log w2) = downloads (log w) @ [One t]"
    by (simp add: w2 downloads_append downloads_simps)
  have after: "\<exists>ext. downloads (log (snd (attempt_loop up h now t s e max_retries k v))) =
                 downloads (log w) @ One t # ext"
    if "downloads (log v) = downloads (log w) @ [One t]" for k v
    using attempt_loop_extends [of up h now t s e max_retries k v] that by auto
  show ?thesis
  proof (cases r)
    case (Inr d)
    then show ?thesis
      using assms dl l2 after [of w2 "attempt + 1"]
      by (subst attempt_loop.simps) (auto simp: Let_def)
  next
    case (Inl err)
    have l3: "downloads (log (sleep (SleepBackoff attempt) w2)) = downloads (log w) @ [One t]"
      by (simp add: l2 downloads_append downloads_simps)
    have l4: "downloads (log (sleep (Sleep 1) w2)) = downloads (log w) @ [One t]"
      by (simp add: l2 downloads_append downloads_simps)
    show ?thesis
      using assms dl l2 Inl after [OF l3, of "attempt + 1"] after [OF l4, of "attempt + 1"]
      by (subst attempt_loop.simps) (cases err; auto simp: Let_def)
  qed
qed

lemma get_stock_data_miss:
  "load_from_cache now t s e w = None \<Longrightarrow>
   get_stock_data up h now t s e max_retries w = attempt_loop up h now t s e max_retries 0 w"
  by (simp add: get_stock_data_def)

text \<open>
  C6. The claim has an empty answer end the call at once. In the source the empty
  branch only prints a warning and the \<open>for\<close> loop moves on: with an upstream that
  always answers with an empty frame and three attempts allowed, the upstream is called
  three times before the fetcher returns absent.
\<close>

theorem empty_response_is_retried_counterexample:
  "get_stock_data (\<lambda>k a. Inr (Plain [])) \<lparr>delay_min = 1, delay_max = 3\<rparr> 0
     ''XXXX'' ''2024-01-01'' ''2024-01-31'' 3 \<lparr>cache = [], calls = 0, log = []\<rparr>
   = (None, \<lparr>cache = [], calls = 3,
        log = [Download (One ''XXXX''), SleepUniform 1 3, Download (One ''XXXX''),
               SleepUniform 1 3, Download (One ''XXXX'')]\<rparr>)"
  by (simp add: get_stock_data_def load_from_cache_def download_def random_delay_def sleep_def
      attempt_loop.simps)

text \<open>
  C6 as amended. On a cache miss, an empty answer uses up one attempt and is retried
  like a failure: when more than one attempt is allowed, a second upstream call for the
  ticker follows an empty first answer; and when every answer is empty, the fetcher
  makes exactly \<open>max_retries\<close> upstream calls, leaves the cache as it was and returns
  absent.
\<close>

theorem empty_response_is_retried:
  assumes miss: "load_from_cache now t s e w = None"
  shows
    "(1 < max_retries \<and> up (calls w) (One t) = Inr d \<and> df_empty d \<longrightarrow>
        (\<exists>rest. downloads (log (snd (get_stock_data up h now t s e max_retries w))) =
                  downloads (log w) @ One t # One t # rest))
     \<and> ((\<forall>k\<ge>calls w. \<exists>d. up k (One t) = Inr d \<and> df_empty d) \<longrightarrow>
        (\<exists>w'. get_stock_data up h now t s e max_retries w = (None, w')
              \<and> calls w' = calls w + nat max_retries
              \<and> cache w' = cache w
              \<and> downloads (log w') = downloads (log w) @ replicate (nat max_retries) (One t)))"
proof (intro conjI impI)
  assume a: "1 < max_retries \<and> up (calls w) (One t) = Inr d \<and> df_empty d"
  let ?w2 = "w\<lparr>calls := calls w + 1, log := log w @ [Download (One t)]\<rparr>"
  have dl: "download up (One t) w = (Inr d, ?w2)"
    using a by (simp add: download_def)
  have "attempt_loop up h now t s e max_retries 0 w =
          attempt_loop up h now t s e max_retries 1 ?w2"
    using a dl by (subst attempt_loop.simps) simp
  then have st: "get_stock_data up h now t s e max_retries w =
          attempt_loop up h now t s e max_retries 1 ?w2"
    using miss by (simp add: get_stock_data_miss)
  have "int 1 < max_retries" using a by simp
  from attempt_loop_first_download [OF this, of up h now t s e ?w2]
  obtain rest where
    "downloads (log (snd (attempt_loop up h now t s e max_retries 1 ?w2))) =
       downloads (log ?w2) @ One t # rest"
    by blast
  then have "downloads (log (snd (get_stock_data up h now t s e max_retries w))) =
       downloads (log w) @ One t # One t # rest"
    by (simp add: st downloads_append downloads_simps)
  then show "\<exists>rest. downloads (log (snd (get_stock_data up h now t s e max_retries w))) =
                  downloads (log w) @ One t # One t # rest"
    by blast
next
  assume "\<forall>k\<ge>calls w. \<exists>d. up k (One t) = Inr d \<and> df_empty d"
  then have "\<exists>w'. attempt_loop up h now t s e max_retries 0 w = (None, w')
           \<and> calls w' = calls w + nat (max_retries - int 0)
           \<and> cache w' = cache w
           \<and> downloads (log w') =
               downloads (log w) @ replicate (nat (max_retries - int 0)) (One t)"
    by (rule attempt_loop_all_empty)
  then show "\<exists>w'. get_stock_data up h now t s e max_retries w = (None, w')
              \<and> calls w' = calls w + nat max_retries
              \<and> cache w' = cache w
              \<and> downloads (log w') = downloads (log w) @ replicate (nat max_retries) (One t)"
    using miss by (simp add: get_stock_data_miss)
qed

theorem empty_response_is_retried_witness:
  "load_from_cache 0 ''XXXX'' ''2024-01-01'' ''2024-01-31''
     \<lparr>cache = [], calls = 0, log = []\<rparr> = None
   \<and> (1::int) < 2 \<and> df_empty (Plain [])
   \<and> downloads (log (snd (get_stock_data (\<lambda>k a. Inr (Plain []))
        \<lparr>delay_min = 1, delay_max = 3\<rparr> 0 ''XXXX'' ''2024-01-01'' ''2024-01-31'' 2
        \<lparr>cache = [], calls = 0, log = []\<rparr>))) = [One ''XXXX'', One ''XXXX'']"
proof -
  let ?w = "\<lparr>cache = [], calls = 0, log = []\<rparr>"
  let ?up = "\<lambda>(k::nat) (a::tickers_arg). Inr (Plain []) :: download_error + dataframe"
  have m: "load_from_cache 0 ''XXXX'' ''2024-01-01'' ''2024-01-31'' ?w = None"
    by (simp add: load_from_cache_def)
  have e: "\<forall>k\<ge>calls ?w. \<exists>d. ?up k (One ''XXXX'') = Inr d \<and> df_empty d"
    by simp
  from empty_response_is_retried [OF m, of 2 ?up "Plain []" "\<lparr>delay_min = 1, delay_max = 3\<rparr>"] e
  show ?thesis
    using m by (auto simp: downloads_simps numeral_2_eq_2)
qed

subsection \<open>Fetching a batch in bulk\<close>

lemma check_cache_uncached:
  "fst (snd (check_cache now s e w batch results)) = cache_misses now s e w batch"
proof (induction batch arbitrary: results)
  case Nil
  show ?case by (simp add: cache_misses_def)
next
  case (Cons t batch)
  show ?case
  proof (cases "load_from_cache now t s e w")
    case None
    obtain c u r where cc: "check_cache now s e w batch results = (c, u, r)"
      by (cases "check_cache now s e w batch results")
    have "u = cache_misses now s e w batch" using Cons.IH [of results] cc by simp
    then show ?thesis using None cc by (simp add: cache_misses_def)
  next
    case (Some d)
    obtain c u r where cc: "check_cache now s e w batch (results(t \<mapsto> d)) = (c, u, r)"
      by (cases "check_cache now s e w batch (results(t \<mapsto> d))")
    have "fst (snd (check_cache now s e w batch (results(t \<mapsto> d)))) =
          cache_misses now s e w batch"
      by (rule Cons.IH)
    then have "u = cache_misses now s e w batch" by (simp only: cc fst_conv snd_conv)
    then show ?thesis using Some cc by (simp add: cache_misses_def)
  qed
qed




lemma load_from_cache_random_delay [simp]:
  "load_from_cache now t s e (random_delay h w) = load_from_cache now t s e w"
  by (simp add: load_from_cache_def)













text \<open>The handler is reached by an exception only. A bulk call that returns an empty
  frame is reported and the batch ends there, with no call per ticker.\<close>

lemma process_batch_bulk_empty:
  assumes "cache_misses now s e w batch \<noteq> []"
    and "up (calls w) (Many (cache_misses now s e w batch)) = Inr d"
    and "df_empty d"
  shows "snd (process_batch up h now s e batch (results, w)) =
         w\<lparr>calls := calls w + 1,
           log := log w @ [Download (Many (cache_misses now s e w batch))]\<rparr>"
proof -
  obtain c u r where cc: "check_cache now s e w batch results = (c, u, r)"
    by (cases "check_cache now s e w batch results")
  have u: "u = cache_misses now s e w batch"
    using check_cache_uncached [of now s e w batch results] cc by simp
  show ?thesis
    using assms cc u by (simp add: process_batch_def download_def)
qed

text \<open>The batch loop runs that body on each slice of \<open>batch_size\<close> tickers in turn,
  pausing between slices; a list that fits into one batch is one run of the body.\<close>

lemma batch_loop_step:
  assumes "0 < batch_size" and "i < length tickers"
  shows "batch_loop up h now tickers s e batch_size delay i rw =
         batch_loop up h now tickers s e batch_size delay (i + batch_size)
           (fst (process_batch up h now s e (take batch_size (drop i tickers)) rw),
            if i + batch_size < length tickers
            then sleep (Sleep delay)
                   (snd (process_batch up h now s e (take batch_size (drop i tickers)) rw))
            else snd (process_batch up h now s e (take batch_size (drop i tickers)) rw))"
  using assms
  by (subst batch_loop.simps) (simp add: split_beta)

lemma batch_download_bulk_single_batch:
  assumes "tickers \<noteq> []" and "int (length tickers) \<le> batch_size"
  shows "batch_download_bulk up h now tickers s e batch_size delay w =
         Inr (process_batch up h now s e tickers (Map.empty, w))"
proof -
  have len: "0 < length tickers" using assms(1) by simp
  then have pos: "0 < batch_size" using assms(2) by linarith
  have b: "0 < nat batch_size" "length tickers \<le> nat batch_size" "0 < length tickers"
    using len pos assms(2) by simp_all
  have "batch_loop up h now tickers s e (nat batch_size) delay 0 (Map.empty, w) =
        batch_loop up h now tickers s e (nat batch_size) delay (0 + nat batch_size)
          (process_batch up h now s e tickers (Map.empty, w))"
    using b by (subst batch_loop_step) simp_all
  also have "\<dots> = process_batch up h now s e tickers (Map.empty, w)"
    using b by (subst batch_loop.simps) simp
  finally show ?thesis using pos by (simp add: batch_download_bulk_def)
qed

end
